theory Spec2Isabelle
  imports Complex_Main "HOL-Library.Sublist" "HOL-Library.AList"
begin

section \<open>Label mesh extraction (mesh\_viz.py)\<close>

text \<open>
  Floating-point numbers of the program are modelled as reals. A numpy array is its shape
  together with its voxel values; a PyVista mesh is its point list and its faces. The voxel
  spacing is the tuple of up to three zooms of the image header, the origin a 3-vector.
\<close>

type_synonym vec3 = "real \<times> real \<times> real"

record ndarray =
  shape :: "nat list"
  voxels :: "real list"

record mesh =
  points :: "vec3 list"
  faces :: "nat list list"

definition n_points :: "mesh \<Rightarrow> nat" where
  "n_points m = length (points m)"

text \<open>
  The three calls into the external geometry libraries are parameters of the model:
  \<^item> \<open>gaussian_filter field sigma\<close> is \<^verbatim>\<open>ndimage.gaussian_filter(field, sigma=sigma)\<close>;
  \<^item> \<open>contour field spacing origin iso\<close> is the \<^verbatim>\<open>pv.ImageData\<close> grid built from the field
    followed by \<^verbatim>\<open>grid.contour(isosurfaces=[iso], scalars="values")\<close>;
  \<^item> \<open>smooth m n relax\<close> is \<^verbatim>\<open>m.smooth(n_iter=n, relaxation_factor=relax)\<close>.
\<close>

record geometry_lib =
  gaussian_filter :: "ndarray \<Rightarrow> real \<Rightarrow> ndarray"
  contour :: "ndarray \<Rightarrow> real list \<Rightarrow> vec3 \<Rightarrow> real \<Rightarrow> mesh"
  smooth :: "mesh \<Rightarrow> int \<Rightarrow> real \<Rightarrow> mesh"

text \<open>\<^verbatim>\<open>extract_isosurface\<close>, lines 22-45: \<open>None\<close> is Python's \<^verbatim>\<open>None\<close>.\<close>

definition extract_isosurface ::
  "geometry_lib \<Rightarrow> ndarray \<Rightarrow> real list \<Rightarrow> vec3 \<Rightarrow> real \<Rightarrow> real \<Rightarrow> int \<Rightarrow> real \<Rightarrow> mesh option" where
  "extract_isosurface lib volume spacing origin threshold sigma smooth_iter smooth_relax =
     (let field = (if sigma > 0 then gaussian_filter lib volume sigma else volume);
          surface = contour lib field spacing origin threshold
      in if n_points surface = 0 then None
         else if smooth_iter > 0 then Some (smooth lib surface smooth_iter smooth_relax)
         else Some surface)"

text \<open>The mask \<^verbatim>\<open>(volume == lbl).astype(float)\<close>.\<close>

definition label_mask :: "ndarray \<Rightarrow> real \<Rightarrow> ndarray" where
  "label_mask volume lbl =
     volume\<lparr>voxels := map (\<lambda>v. if v = lbl then 1 else 0) (voxels volume)\<rparr>"

text \<open>
  \<^verbatim>\<open>extract_label_meshes\<close>, lines 48-74: the loop over the labels, with the list of
  meshes built so far as accumulator.
\<close>

fun extract_loop ::
  "geometry_lib \<Rightarrow> ndarray \<Rightarrow> real list \<Rightarrow> vec3 \<Rightarrow> real \<Rightarrow> int \<Rightarrow> real \<Rightarrow> real \<Rightarrow>
   real list \<Rightarrow> (real \<times> mesh) list \<Rightarrow> (real \<times> mesh) list" where
  "extract_loop lib volume spacing origin sigma smooth_iter smooth_relax threshold [] meshes = meshes"
| "extract_loop lib volume spacing origin sigma smooth_iter smooth_relax threshold (lbl # labels) meshes =
     (let mask = label_mask volume lbl
      in case extract_isosurface lib mask spacing origin threshold sigma smooth_iter smooth_relax of
           None \<Rightarrow>
             extract_loop lib volume spacing origin sigma smooth_iter smooth_relax threshold labels meshes
         | Some m \<Rightarrow>
             extract_loop lib volume spacing origin sigma smooth_iter smooth_relax threshold labels
               (meshes @ [(lbl, m)]))"

definition extract_label_meshes ::
  "geometry_lib \<Rightarrow> ndarray \<Rightarrow> real list \<Rightarrow> real list \<Rightarrow> vec3 \<Rightarrow> real \<Rightarrow> int \<Rightarrow> real \<Rightarrow> real \<Rightarrow>
   (real \<times> mesh) list" where
  "extract_label_meshes lib volume labels spacing origin sigma smooth_iter smooth_relax threshold =
     extract_loop lib volume spacing origin sigma smooth_iter smooth_relax threshold labels []"

text \<open>
  A small instance of the library interface, on which the theorems below are evaluated:
  no pre-smoothing, one point per voxel at or above the iso-value, no relaxation.
\<close>

definition sample_lib :: geometry_lib where
  "sample_lib =
     \<lparr>gaussian_filter = (\<lambda>field sigma. field),
      contour = (\<lambda>field spacing origin iso.
         \<lparr>points = map (\<lambda>v. origin) (filter (\<lambda>v. iso \<le> v) (voxels field)), faces = []\<rparr>),
      smooth = (\<lambda>m n relax. m)\<rparr>"

definition sample_volume :: ndarray where
  "sample_volume = \<lparr>shape = [2, 2, 1], voxels = [0, 1, 1, 2]\<rparr>"


section \<open>Camera presets (mesh\_viz.py) and the renderer (gui/renderer.py)\<close>

text \<open>
  The plotter of the graphics library is modelled by the part of its state that the program
  sets: projection, anti-aliasing, lights, the actors with the keyword arguments they were
  added with, and the camera. \<open>Isometric\<close> stands for the library's own
  \<^verbatim>\<open>view_isometric()\<close>; \<open>CameraPosition position focal_point up\<close> for an assignment to
  \<^verbatim>\<open>camera_position\<close>; \<open>camera_reset\<close> records a call of \<^verbatim>\<open>reset_camera()\<close>, and
  \<open>ren_win\<close> says that the render window exists (\<^verbatim>\<open>ren_win is not None\<close>). Clearing the plotter
  removes its actors and its lights.
\<close>

type_synonym bounds = "real \<times> real \<times> real \<times> real \<times> real \<times> real"

datatype camera = DefaultCamera | Isometric | CameraPosition vec3 vec3 vec3

record light =
  light_position :: vec3
  light_color :: string
  light_type :: string
  intensity :: real

record actor =
  actor_mesh :: mesh
  color :: string
  show_edges :: bool
  edge_color :: string
  line_width :: real
  smooth_shading :: bool
  specular :: real
  specular_power :: real
  ambient :: real
  diffuse :: real
  lighting :: bool

record plotter =
  background :: string
  parallel_projection :: bool
  anti_aliasing :: bool
  lights :: "light list"
  actors :: "actor list"
  camera :: camera
  camera_reset :: bool
  ren_win :: bool

text \<open>
  \<^verbatim>\<open>_set_view\<close>, mesh\_viz.py lines 77-105. Its first statement reads \<^verbatim>\<open>plotter.bounds\<close>, which
  the library computes from the scene; here the bounds are the first argument.
\<close>

definition set_view :: "bounds \<Rightarrow> string \<Rightarrow> plotter \<Rightarrow> plotter" where
  "set_view bounds view p =
     (case bounds of (b0, b1, b2, b3, b4, b5) \<Rightarrow>
        let x_mid = 0.5 * (b0 + b1);
            y_mid = 0.5 * (b2 + b3);
            z_mid = 0.5 * (b4 + b5);
            span = max (max (max (b1 - b0) (b3 - b2)) (b5 - b4)) 1.0;
            dist = span * 1.8
        in if view = ''iso'' then p\<lparr>camera := Isometric\<rparr>
           else if view = ''left'' then
             p\<lparr>camera := CameraPosition (x_mid - dist, y_mid, z_mid) (x_mid, y_mid, z_mid) (0, 0, 1)\<rparr>
           else if view = ''right'' then
             p\<lparr>camera := CameraPosition (x_mid + dist, y_mid, z_mid) (x_mid, y_mid, z_mid) (0, 0, 1)\<rparr>
           else if view = ''top'' then
             p\<lparr>camera := CameraPosition (x_mid, y_mid, z_mid + dist) (x_mid, y_mid, z_mid) (0, 1, 0)\<rparr>
           else if view = ''front'' then
             p\<lparr>camera := CameraPosition (x_mid, y_mid - dist, z_mid) (x_mid, y_mid, z_mid) (0, 0, 1)\<rparr>
           else p\<lparr>camera := Isometric\<rparr>)"

text \<open>The palette of gui/constants.py and \<^verbatim>\<open>MeshRenderer._default_color\<close>.\<close>

definition PALETTE :: "string list" where
  "PALETTE = [''#4C78A8'', ''#E45756'', ''#72B7B2'', ''#F28E2B'',
              ''#59A14F'', ''#B279A2'', ''#FF9DA6'', ''#9C755F'']"

definition default_color :: "nat \<Rightarrow> string" where
  "default_color idx = PALETTE ! (idx mod length PALETTE)"

text \<open>\<^verbatim>\<open>MeshRenderer._configure_projection\<close>, lines 59-66.\<close>

definition configure_projection :: "bool \<Rightarrow> plotter \<Rightarrow> plotter" where
  "configure_projection is_2d p =
     (if is_2d then p\<lparr>parallel_projection := True, anti_aliasing := False\<rparr>
      else p\<lparr>parallel_projection := False, anti_aliasing := True\<rparr>)"

text \<open>\<^verbatim>\<open>MeshRenderer._clear_and_setup_lights\<close>, lines 68-85.\<close>

definition clear_and_setup_lights :: "plotter \<Rightarrow> plotter" where
  "clear_and_setup_lights p =
     p\<lparr>actors := [],
       lights :=
         [\<lparr>light_position = (1, 1, 1), light_color = ''white'',
           light_type = ''scene light'', intensity = 0.9\<rparr>,
          \<lparr>light_position = (-1, -0.5, 1.5), light_color = ''white'',
           light_type = ''scene light'', intensity = 0.7\<rparr>,
          \<lparr>light_position = (0, -1.5, -1), light_color = ''white'',
           light_type = ''scene light'', intensity = 0.5\<rparr>]\<rparr>"

text \<open>
  \<^verbatim>\<open>MeshRenderer._add_mesh\<close>, lines 87-131: the material is chosen by the style, and the
  mesh is added to the plotter with it (\<^verbatim>\<open>silhouette=None\<close> is the default of the library and
  has no field).
\<close>

definition add_mesh :: "mesh \<Rightarrow> string \<Rightarrow> bool \<Rightarrow> bool \<Rightarrow> plotter \<Rightarrow> plotter" where
  "add_mesh m col is_2d show_edges_flag p =
     (let (amb, dif, spec, lit, smooth_sh, edge_display) =
            (if is_2d then (1.0, 0.1, 0.0, False, False, False)
             else (0.25, 0.6, 0.15, True, True, show_edges_flag))
      in p\<lparr>actors := actors p @
           [\<lparr>actor_mesh = m, color = col, show_edges = edge_display, edge_color = ''#222222'',
             line_width = 1.0, smooth_shading = smooth_sh, specular = spec, specular_power = 5,
             ambient = amb, diffuse = dif, lighting = lit\<rparr>]\<rparr>)"

text \<open>\<^verbatim>\<open>MeshRenderer._apply_view\<close>, lines 133-137.\<close>

definition apply_view :: "(mesh list \<Rightarrow> bounds) \<Rightarrow> string \<Rightarrow> plotter \<Rightarrow> plotter" where
  "apply_view scene_bounds view p =
     (set_view (scene_bounds (map actor_mesh (actors p))) view p)\<lparr>camera_reset := True\<rparr>"

text \<open>\<^verbatim>\<open>MeshRenderer.reset_view\<close>, lines 139-149.\<close>

definition reset_view :: "(mesh list \<Rightarrow> bounds) \<Rightarrow> string \<Rightarrow> plotter \<Rightarrow> plotter" where
  "reset_view scene_bounds view p =
     (if \<not> ren_win p then p
      else (set_view (scene_bounds (map actor_mesh (actors p))) view p)\<lparr>camera_reset := True\<rparr>)"

text \<open>
  \<^verbatim>\<open>MeshRenderer.render_meshes\<close>, lines 32-57; the colours are a Python dict, here an
  association list in insertion order.
\<close>

fun add_meshes ::
  "(real \<times> string) list \<Rightarrow> bool \<Rightarrow> bool \<Rightarrow> nat \<Rightarrow> (real \<times> mesh) list \<Rightarrow> plotter \<Rightarrow> plotter" where
  "add_meshes label_colors is_2d show_edges_flag idx [] p = p"
| "add_meshes label_colors is_2d show_edges_flag idx ((lbl, m) # rest) p =
     (let col = (case map_of label_colors lbl of Some c \<Rightarrow> c | None \<Rightarrow> default_color idx)
      in add_meshes label_colors is_2d show_edges_flag (Suc idx) rest
           (add_mesh m col is_2d show_edges_flag p))"

definition render_meshes ::
  "(mesh list \<Rightarrow> bounds) \<Rightarrow> (real \<times> mesh) list \<Rightarrow> (real \<times> string) list \<Rightarrow> bool \<Rightarrow> bool \<Rightarrow> string \<Rightarrow>
   plotter \<Rightarrow> plotter" where
  "render_meshes scene_bounds label_meshes label_colors is_2d show_edges_flag view p =
     apply_view scene_bounds view
       (add_meshes label_colors is_2d show_edges_flag 0 label_meshes
          (clear_and_setup_lights (configure_projection is_2d p)))"

text \<open>\<^verbatim>\<open>MeshRenderer.clear\<close>, lines 168-171.\<close>

definition renderer_clear :: "plotter \<Rightarrow> plotter" where
  "renderer_clear p = p\<lparr>actors := [], lights := []\<rparr>"


section \<open>Widgets of the GUI (gui/widgets) and the external interfaces\<close>

text \<open>
  What the program gets from outside of the repository is gathered in one record:
  \<^item> \<open>geometry\<close>, the geometry library above, and \<open>scene_bounds\<close>, the \<^verbatim>\<open>bounds\<close> property of
    the plotter, computed by the graphics library from the meshes of the scene;
  \<^item> \<open>path_exists\<close> and \<open>nib_load\<close>, the file system and the NIfTI reader: \<open>Inl msg\<close> is a
    raised exception;
  \<^item> \<open>csv_rows path\<close>, the rows that \<^verbatim>\<open>csv.reader\<close> yields for the file, and whether
    opening or reading raised after these rows;
  \<^item> \<open>py_float\<close>, Python's \<^verbatim>\<open>float(str)\<close>, \<open>None\<close> for \<^verbatim>\<open>ValueError\<close>;
  \<^item> \<open>spin_round\<close>, the rounding of a value to the three decimals of the range spin boxes
    that \<^verbatim>\<open>QDoubleSpinBox.setValue\<close> applies;
  \<^item> \<open>cmap_hex name x\<close>, the hex colour \<^verbatim>\<open>to_hex(get_cmap(name)(x)[:3])\<close> that matplotlib gives
    for the normalised value \<open>x\<close>; values outside of 0 to 1 get the colours of the ends.
\<close>

record nifti =
  fdata :: "string + ndarray"
  zooms :: "real list"
  affine_translation :: vec3

record externals =
  geometry :: geometry_lib
  scene_bounds :: "mesh list \<Rightarrow> bounds"
  path_exists :: "string \<Rightarrow> bool"
  nib_load :: "string \<Rightarrow> string + nifti"
  csv_rows :: "string \<Rightarrow> string list list \<times> bool"
  py_float :: "string \<Rightarrow> real option"
  spin_round :: "real \<Rightarrow> real"
  cmap_hex :: "string \<Rightarrow> real \<Rightarrow> string"

text \<open>\<^verbatim>\<open>load_nii_volume\<close>, mesh\_viz.py lines 13-19.\<close>

definition load_nii_volume :: "externals \<Rightarrow> string \<Rightarrow> string + (ndarray \<times> real list \<times> vec3)" where
  "load_nii_volume ext path =
     (case nib_load ext path of
        Inl exc \<Rightarrow> Inl exc
      | Inr nii \<Rightarrow>
          (case fdata nii of
             Inl exc \<Rightarrow> Inl exc
           | Inr data \<Rightarrow> Inr (data, take 3 (zooms nii), affine_translation nii)))"

subsection \<open>State of the widgets\<close>

text \<open>
  A Python dict is an association list in insertion order, updated with \<open>AList.update\<close>.
  The label list refers to a dict of values that is either its own or the very dict object
  of the colormap panel (\<^verbatim>\<open>self.label_values = values\<close> stores the reference). The text of
  the list items and the painting of the colour squares are not modelled.
\<close>

record list_item =
  item_label :: real
  item_checked :: bool

datatype values_ref = Own_dict "(real \<times> real) list" | Panel_dict

record label_list_panel =
  list_items :: "list_item list"
  label_colors :: "(real \<times> string) list"
  list_label_values :: values_ref

record colormap_panel =
  label_values :: "(real \<times> real) list"
  use_colormap :: bool
  current_colormap :: string
  colormap_vmin :: "real option"
  colormap_vmax :: "real option"
  vmin_spin :: real
  vmax_spin :: real
  value_file_edit :: string

record render_params_panel =
  sigma_spin :: real
  smooth_spin :: int
  edges_chk :: bool
  style_combo :: string
  view_combo :: string

text \<open>The messages of the status label, one constructor per format string.\<close>

datatype status =
    Load_a_NIfTI_to_begin
  | File_not_found string
  | Failed_to_load string
  | Loaded string nat
  | Loaded_ROI_values nat
  | Load_a_NIfTI_first
  | No_labels_selected
  | No_meshes_extracted
  | Rendered nat

text \<open>
  The main window \<^verbatim>\<open>MeshGui\<close>. \<open>render_timer\<close> is the single-shot \<^verbatim>\<open>QTimer\<close>: \<open>None\<close> when
  it is not running, \<open>Some r\<close> when it times out in \<open>r\<close> milliseconds. \<open>render_calls\<close> is a
  history variable: the rendering parameters at each call of \<^verbatim>\<open>_render_scene\<close>.
\<close>

record mesh_gui =
  volume :: "ndarray option"
  spacing :: "real list option"
  origin :: "vec3 option"
  render_timer :: "nat option"
  label_list :: label_list_panel
  colormap_panel :: colormap_panel
  render_params :: render_params_panel
  plotter :: plotter
  status_lbl :: status
  render_calls :: "render_params_panel list"

definition RENDER_DEBOUNCE_MS :: nat where
  "RENDER_DEBOUNCE_MS = 80"

definition NEUTRAL_COLOR :: string where
  "NEUTRAL_COLOR = ''#cccccc''"

subsection \<open>Label list (gui/widgets/label\_list.py)\<close>

text \<open>\<^verbatim>\<open>populate_labels\<close>, lines 136-171; the only caller passes the dict of the colormap panel.\<close>

fun populate_loop :: "nat \<Rightarrow> real list \<Rightarrow> label_list_panel \<Rightarrow> label_list_panel" where
  "populate_loop idx [] ll = ll"
| "populate_loop idx (lbl # labels) ll =
     populate_loop (Suc idx) labels
       (ll\<lparr>list_items := list_items ll @ [\<lparr>item_label = lbl, item_checked = True\<rparr>],
           label_colors := AList.update lbl (default_color idx) (label_colors ll)\<rparr>)"

definition populate_labels :: "real list \<Rightarrow> (real \<times> real) list \<Rightarrow> label_list_panel \<Rightarrow> label_list_panel" where
  "populate_labels labels panel_values ll =
     populate_loop 0 labels
       (ll\<lparr>list_items := [], label_colors := [],
           list_label_values := (if panel_values \<noteq> [] then Panel_dict else list_label_values ll)\<rparr>)"

text \<open>\<^verbatim>\<open>get_checked_labels\<close>, lines 219-228.\<close>

definition get_checked_labels :: "label_list_panel \<Rightarrow> real list" where
  "get_checked_labels ll = map item_label (filter item_checked (list_items ll))"

text \<open>\<^verbatim>\<open>dict.update\<close>, and \<^verbatim>\<open>set_label_colors\<close>, lines 239-243.\<close>

definition dict_update :: "('k \<times> 'v) list \<Rightarrow> ('k \<times> 'v) list \<Rightarrow> ('k \<times> 'v) list" where
  "dict_update d other = fold (\<lambda>(k, v). AList.update k v) other d"

definition set_label_colors :: "(real \<times> string) list \<Rightarrow> label_list_panel \<Rightarrow> label_list_panel" where
  "set_label_colors colors ll = ll\<lparr>label_colors := dict_update (label_colors ll) colors\<rparr>"

text \<open>
  \<^verbatim>\<open>set_label_values\<close>, lines 245-249: \<^verbatim>\<open>refresh_display\<close> rebuilds the items with the same
  labels and check states.
\<close>

definition set_label_values :: "values_ref \<Rightarrow> label_list_panel \<Rightarrow> label_list_panel" where
  "set_label_values ref ll = ll\<lparr>list_label_values := ref\<rparr>"

subsection \<open>Colour computation (gui/widgets/colormap\_panel.py)\<close>

text \<open>
  \<^verbatim>\<open>matplotlib.colors.Normalize(vmin, vmax)(value)\<close>, without clipping: 0 when the bounds are
  equal, a \<^verbatim>\<open>ValueError\<close> when the minimum is above the maximum, else the linear scaling.
\<close>

datatype py_error = ValueError

definition normalize :: "real \<Rightarrow> real \<Rightarrow> real \<Rightarrow> py_error + real" where
  "normalize vmin vmax v =
     (if vmin = vmax then Inr 0
      else if vmin > vmax then Inl ValueError
      else Inr ((v - vmin) / (vmax - vmin)))"

text \<open>\<^verbatim>\<open>get_color_for_value\<close>, lines 268-275.\<close>

definition get_color_for_value :: "externals \<Rightarrow> colormap_panel \<Rightarrow> real \<Rightarrow> py_error + string" where
  "get_color_for_value ext cp v =
     (let vmin = (case colormap_vmin cp of Some a \<Rightarrow> a | None \<Rightarrow> 0);
          vmax = (case colormap_vmax cp of Some b \<Rightarrow> b | None \<Rightarrow> 1)
      in case normalize vmin vmax v of
           Inl exc \<Rightarrow> Inl exc
         | Inr x \<Rightarrow> Inr (cmap_hex ext (current_colormap cp) x))"

text \<open>\<^verbatim>\<open>compute_colors\<close>, lines 277-283: the loop ends at the first exception.\<close>

fun compute_colors_loop ::
  "externals \<Rightarrow> colormap_panel \<Rightarrow> real list \<Rightarrow> (real \<times> string) list \<Rightarrow> py_error + (real \<times> string) list" where
  "compute_colors_loop ext cp [] colors = Inr colors"
| "compute_colors_loop ext cp (lbl # labels) colors =
     (case map_of (label_values cp) lbl of
        None \<Rightarrow> compute_colors_loop ext cp labels colors
      | Some v \<Rightarrow>
          (case get_color_for_value ext cp v of
             Inl exc \<Rightarrow> Inl exc
           | Inr c \<Rightarrow> compute_colors_loop ext cp labels (AList.update lbl c colors)))"

definition compute_colors ::
  "externals \<Rightarrow> colormap_panel \<Rightarrow> real list \<Rightarrow> py_error + (real \<times> string) list" where
  "compute_colors ext cp labels = compute_colors_loop ext cp labels []"

subsection \<open>Outcomes of the methods that can raise\<close>

text \<open>
  A method that computes colours ends in one of three ways, each with the state of the
  window reached: it returns (\<open>Done\<close>); the \<^verbatim>\<open>ValueError\<close> leaves it (\<open>Raised\<close>); or the
  exception leaves a slot that Qt called, where PyQt5, with no exception hook installed
  (scripts/gui\_app.py installs none), ends the process (\<open>Aborted\<close>).
\<close>

datatype 'a outcome = Done 'a | Raised 'a | Aborted 'a

fun state_of :: "'a outcome \<Rightarrow> 'a" where
  "state_of (Done s) = s"
| "state_of (Raised s) = s"
| "state_of (Aborted s) = s"

text \<open>Sequencing of two statements, the end of a slot, and \<^verbatim>\<open>try: ... except Exception: pass\<close>.\<close>

fun and_then :: "'a outcome \<Rightarrow> ('a \<Rightarrow> 'a outcome) \<Rightarrow> 'a outcome" where
  "and_then (Done s) f = f s"
| "and_then (Raised s) f = Raised s"
| "and_then (Aborted s) f = Aborted s"

fun in_slot :: "'a outcome \<Rightarrow> 'a outcome" where
  "in_slot (Done s) = Done s"
| "in_slot (Raised s) = Aborted s"
| "in_slot (Aborted s) = Aborted s"

fun caught :: "'a outcome \<Rightarrow> 'a outcome" where
  "caught (Done s) = Done s"
| "caught (Raised s) = Done s"
| "caught (Aborted s) = Aborted s"


section \<open>The main window (gui/main\_window.py) and the stateful part of the colormap panel\<close>

text \<open>
  Methods that call back into the main window are functions on the state of the whole
  window. A Qt signal is modelled by the call of the slot connected to it. The methods that
  reach the colour computation return an outcome.
\<close>

subsection \<open>Rendering and its scheduling\<close>

text \<open>\<^verbatim>\<open>MeshGui._schedule_render\<close>, lines 223-227: \<^verbatim>\<open>QTimer.start\<close> restarts a running timer.\<close>

definition schedule_render :: "mesh_gui \<Rightarrow> mesh_gui" where
  "schedule_render g =
     (if volume g = None then g else g\<lparr>render_timer := Some RENDER_DEBOUNCE_MS\<rparr>)"

text \<open>
  \<^verbatim>\<open>MeshGui._render_scene\<close>, lines 229-264. The volume, the spacing and the origin are
  assigned together, so the branch with a volume and no spacing or origin is never taken;
  the model leaves the scene alone there.
\<close>

definition render_scene :: "externals \<Rightarrow> mesh_gui \<Rightarrow> mesh_gui" where
  "render_scene ext g0 =
     (let g = g0\<lparr>render_calls := render_calls g0 @ [render_params g0]\<rparr>
      in case volume g of
           None \<Rightarrow> g\<lparr>status_lbl := Load_a_NIfTI_first\<rparr>
         | Some vol \<Rightarrow>
             (let labels = get_checked_labels (label_list g)
              in if labels = [] then
                   g\<lparr>plotter := renderer_clear (plotter g), status_lbl := No_labels_selected\<rparr>
                 else
                   (case (spacing g, origin g) of
                      (Some sp, Some org) \<Rightarrow>
                        (let sigma = sigma_spin (render_params g);
                             smooth_iter = smooth_spin (render_params g);
                             label_meshes = extract_label_meshes (geometry ext) vol labels sp org
                                              sigma smooth_iter 0.1 0.5
                         in if label_meshes = [] then
                              g\<lparr>plotter := renderer_clear (plotter g),
                                status_lbl := No_meshes_extracted\<rparr>
                            else
                              g\<lparr>plotter :=
                                  render_meshes (scene_bounds ext) label_meshes
                                    (label_colors (label_list g))
                                    (style_combo (render_params g) = ''2D flat'')
                                    (edges_chk (render_params g))
                                    (view_combo (render_params g))
                                    (plotter g),
                                status_lbl := Rendered (length label_meshes)\<rparr>)
                    | _ \<Rightarrow> g)))"

text \<open>
  The event loop: \<open>elapse ext dt g\<close> lets \<open>dt\<close> milliseconds pass without any user event. A
  running timer times out once its interval has passed; being single-shot it stops, and
  its \<^verbatim>\<open>timeout\<close> signal calls \<^verbatim>\<open>_render_scene\<close> (\<^verbatim>\<open>__init__\<close>, lines 45-48).
\<close>

definition elapse :: "externals \<Rightarrow> nat \<Rightarrow> mesh_gui \<Rightarrow> mesh_gui" where
  "elapse ext dt g =
     (case render_timer g of
        None \<Rightarrow> g
      | Some r \<Rightarrow>
          if r \<le> dt then render_scene ext (g\<lparr>render_timer := None\<rparr>)
          else g\<lparr>render_timer := Some (r - dt)\<rparr>)"

text \<open>
  The events of the rendering parameters panel (render\_params.py lines 39-80): a widget takes
  a new value and emits its change signal. The signals of sigma, of the smoothing
  iterations, of the edges check box and of the style are connected to \<^verbatim>\<open>_on_change\<close>, whose
  callback is \<^verbatim>\<open>MeshGui._schedule_render\<close>; the signal of the view combo is connected to
  \<^verbatim>\<open>_on_view_change\<close>, whose callback is \<^verbatim>\<open>MeshGui._on_view_changed\<close>.
\<close>

datatype param_event =
    Sigma_changed real
  | Smooth_iter_changed int
  | Edges_changed bool
  | Style_changed string
  | View_changed string

fun set_param :: "param_event \<Rightarrow> render_params_panel \<Rightarrow> render_params_panel" where
  "set_param (Sigma_changed v) rp = rp\<lparr>sigma_spin := v\<rparr>"
| "set_param (Smooth_iter_changed n) rp = rp\<lparr>smooth_spin := n\<rparr>"
| "set_param (Edges_changed b) rp = rp\<lparr>edges_chk := b\<rparr>"
| "set_param (Style_changed t) rp = rp\<lparr>style_combo := t\<rparr>"
| "set_param (View_changed t) rp = rp\<lparr>view_combo := t\<rparr>"

fun schedules_render :: "param_event \<Rightarrow> bool" where
  "schedules_render (View_changed t) = False"
| "schedules_render (Sigma_changed v) = True"
| "schedules_render (Smooth_iter_changed n) = True"
| "schedules_render (Edges_changed b) = True"
| "schedules_render (Style_changed t) = True"

text \<open>\<^verbatim>\<open>MeshGui._on_view_changed\<close> and \<^verbatim>\<open>_reset_view\<close>, main\_window.py lines 268-278.\<close>

definition on_view_changed :: "externals \<Rightarrow> mesh_gui \<Rightarrow> mesh_gui" where
  "on_view_changed ext g =
     g\<lparr>plotter := reset_view (scene_bounds ext) (view_combo (render_params g)) (plotter g)\<rparr>"

fun handle_event :: "externals \<Rightarrow> param_event \<Rightarrow> mesh_gui \<Rightarrow> mesh_gui" where
  "handle_event ext (View_changed t) g =
     on_view_changed ext (g\<lparr>render_params := set_param (View_changed t) (render_params g)\<rparr>)"
| "handle_event ext (Sigma_changed v) g =
     schedule_render (g\<lparr>render_params := set_param (Sigma_changed v) (render_params g)\<rparr>)"
| "handle_event ext (Smooth_iter_changed n) g =
     schedule_render (g\<lparr>render_params := set_param (Smooth_iter_changed n) (render_params g)\<rparr>)"
| "handle_event ext (Edges_changed b) g =
     schedule_render (g\<lparr>render_params := set_param (Edges_changed b) (render_params g)\<rparr>)"
| "handle_event ext (Style_changed t) g =
     schedule_render (g\<lparr>render_params := set_param (Style_changed t) (render_params g)\<rparr>)"

text \<open>A burst of events, each after the given number of milliseconds without event.\<close>

fun burst :: "externals \<Rightarrow> (nat \<times> param_event) list \<Rightarrow> mesh_gui \<Rightarrow> mesh_gui" where
  "burst ext [] g = g"
| "burst ext ((gap, e) # events) g = burst ext events (handle_event ext e (elapse ext gap g))"

subsection \<open>Loading a volume\<close>

text \<open>\<^verbatim>\<open>MeshGui._load_volume\<close>, lines 141-167.\<close>

definition load_volume :: "externals \<Rightarrow> string \<Rightarrow> mesh_gui \<Rightarrow> mesh_gui" where
  "load_volume ext path g =
     (if \<not> path_exists ext path then g\<lparr>status_lbl := File_not_found path\<rparr>
      else
        (case load_nii_volume ext path of
           Inl exc \<Rightarrow> g\<lparr>status_lbl := Failed_to_load exc\<rparr>
         | Inr (vol, sp, org) \<Rightarrow>
             (let g1 = g\<lparr>volume := Some vol, spacing := Some sp, origin := Some org\<rparr>;
                  labels = sort (remdups (filter (\<lambda>v. v \<noteq> 0) (voxels vol)));
                  g2 = g1\<lparr>label_list :=
                          populate_labels labels (label_values (colormap_panel g1)) (label_list g1)\<rparr>;
                  g3 = g2\<lparr>status_lbl := Loaded path (length labels)\<rparr>
              in render_scene ext g3)))"

subsection \<open>Colours from the colormap\<close>

text \<open>\<^verbatim>\<open>MeshGui._update_colors_from_colormap\<close>, lines 207-219.\<close>

fun palette_loop :: "nat \<Rightarrow> real list \<Rightarrow> (real \<times> string) list \<Rightarrow> (real \<times> string) list" where
  "palette_loop idx [] colors = colors"
| "palette_loop idx (lbl # labels) colors =
     palette_loop (Suc idx) labels (AList.update lbl (default_color idx) colors)"

definition update_colors_from_colormap :: "externals \<Rightarrow> mesh_gui \<Rightarrow> mesh_gui outcome" where
  "update_colors_from_colormap ext g =
     (if \<not> use_colormap (colormap_panel g) then
        Done (g\<lparr>label_list := (label_list g)\<lparr>label_colors :=
            ((\<lambda>colors. palette_loop 0 (map fst colors) colors) ^^ length (label_colors (label_list g)))
              (label_colors (label_list g))\<rparr>\<rparr>)
      else
        (let labels = map fst (label_colors (label_list g))
         in case compute_colors ext (colormap_panel g) labels of
              Inl exc \<Rightarrow> Raised g
            | Inr new_colors \<Rightarrow> Done (g\<lparr>label_list := set_label_colors new_colors (label_list g)\<rparr>)))"

text \<open>\<^verbatim>\<open>MeshGui._on_colormap_changed\<close>, lines 202-205, and \<^verbatim>\<open>_on_values_loaded\<close>, lines 181-190.\<close>

definition on_colormap_changed :: "externals \<Rightarrow> mesh_gui \<Rightarrow> mesh_gui outcome" where
  "on_colormap_changed ext g =
     and_then (update_colors_from_colormap ext g) (\<lambda>g1. Done (schedule_render g1))"

definition on_values_loaded :: "externals \<Rightarrow> mesh_gui \<Rightarrow> mesh_gui outcome" where
  "on_values_loaded ext g =
     (let g1 = g\<lparr>label_list := set_label_values Panel_dict (label_list g)\<rparr>
      in and_then (update_colors_from_colormap ext g1)
           (\<lambda>g2. Done (schedule_render
              (g2\<lparr>status_lbl := Loaded_ROI_values (length (label_values (colormap_panel g2)))\<rparr>))))"

subsection \<open>The range of the colormap\<close>

text \<open>
  \<^verbatim>\<open>ColormapPanel._on_range_changed\<close>, lines 212-218, with \<^verbatim>\<open>_emit_colormap_changed\<close>, whose
  callback is \<^verbatim>\<open>MeshGui._on_colormap_changed\<close>. It is the slot of the \<^verbatim>\<open>valueChanged\<close>
  signals of the two spin boxes. The colorbar preview is not modelled.
\<close>

definition on_range_changed :: "externals \<Rightarrow> mesh_gui \<Rightarrow> mesh_gui outcome" where
  "on_range_changed ext g =
     in_slot
       (let cp = colormap_panel g;
            g1 = g\<lparr>colormap_panel :=
                   cp\<lparr>colormap_vmin := Some (vmin_spin cp), colormap_vmax := Some (vmax_spin cp)\<rparr>\<rparr>
        in if use_colormap cp then on_colormap_changed ext g1 else Done g1)"

text \<open>
  The two range spin boxes are set up with \<^verbatim>\<open>setRange(-1e6, 1e6)\<close> and \<^verbatim>\<open>setDecimals(3)\<close>
  (lines 94-110). \<^verbatim>\<open>setValue\<close> rounds the value to the decimals, bounds it by the range,
  stores it, and emits \<^verbatim>\<open>valueChanged\<close>, connected to \<^verbatim>\<open>_on_range_changed\<close>, when the stored
  value changes.
\<close>

definition spin_stored :: "externals \<Rightarrow> real \<Rightarrow> real" where
  "spin_stored ext v = max (- 1000000) (min 1000000 (spin_round ext v))"

definition vmin_spin_setValue :: "externals \<Rightarrow> real \<Rightarrow> mesh_gui \<Rightarrow> mesh_gui outcome" where
  "vmin_spin_setValue ext v g =
     (let new = spin_stored ext v
      in if new = vmin_spin (colormap_panel g) then Done g
         else on_range_changed ext (g\<lparr>colormap_panel := (colormap_panel g)\<lparr>vmin_spin := new\<rparr>\<rparr>))"

definition vmax_spin_setValue :: "externals \<Rightarrow> real \<Rightarrow> mesh_gui \<Rightarrow> mesh_gui outcome" where
  "vmax_spin_setValue ext v g =
     (let new = spin_stored ext v
      in if new = vmax_spin (colormap_panel g) then Done g
         else on_range_changed ext (g\<lparr>colormap_panel := (colormap_panel g)\<lparr>vmax_spin := new\<rparr>\<rparr>))"

text \<open>
  \<^verbatim>\<open>ColormapPanel.auto_range\<close>, lines 226-238; \<^verbatim>\<open>min\<close> and \<^verbatim>\<open>max\<close> of the non-empty list of
  values are folds over it.
\<close>

definition auto_range :: "externals \<Rightarrow> mesh_gui \<Rightarrow> mesh_gui outcome" where
  "auto_range ext g =
     (case map snd (label_values (colormap_panel g)) of
        [] \<Rightarrow> Done g
      | x # xs \<Rightarrow>
          (let vmin = fold min xs x;
               vmax = fold max xs x;
               margin = (if vmax > vmin then (vmax - vmin) * 0.05 else 0.1)
           in and_then (vmin_spin_setValue ext (vmin - margin) g)
                (vmax_spin_setValue ext (vmax + margin))))"

text \<open>
  The range that \<^verbatim>\<open>get_color_for_value\<close> normalises with: the stored bounds, or 0 and 1
  while they are \<^verbatim>\<open>None\<close>.
\<close>

definition colormap_range :: "colormap_panel \<Rightarrow> real \<times> real" where
  "colormap_range cp =
     ((case colormap_vmin cp of Some a \<Rightarrow> a | None \<Rightarrow> 0),
      (case colormap_vmax cp of Some b \<Rightarrow> b | None \<Rightarrow> 1))"


subsection \<open>Loading a table of values\<close>

text \<open>
  \<^verbatim>\<open>str.lower\<close> and \<^verbatim>\<open>str.strip\<close> on ASCII text: the upper-case letters are mapped to
  lower case, and the white space that \<^verbatim>\<open>strip\<close> removes is tab, line feed, vertical tab,
  form feed, carriage return, the four separators 0x1C to 0x1F and space.
\<close>

definition lower_char :: "char \<Rightarrow> char" where
  "lower_char c =
     (case map_of (zip ''ABCDEFGHIJKLMNOPQRSTUVWXYZ'' ''abcdefghijklmnopqrstuvwxyz'') c of
        Some d \<Rightarrow> d
      | None \<Rightarrow> c)"

definition lower :: "string \<Rightarrow> string" where
  "lower s = map lower_char s"

definition is_space :: "char \<Rightarrow> bool" where
  "is_space c \<longleftrightarrow> c \<in> set [CHR 0x09, CHR 0x0A, CHR 0x0B, CHR 0x0C, CHR 0x0D,
                            CHR 0x1C, CHR 0x1D, CHR 0x1E, CHR 0x1F, CHR '' '']"

definition strip :: "string \<Rightarrow> string" where
  "strip s = rev (dropWhile is_space (rev (dropWhile is_space s)))"

definition LABEL_ALIASES :: "string list" where
  "LABEL_ALIASES = [''label'', ''roi'', ''region'', ''id'', ''index'']"

definition VALUE_ALIASES :: "string list" where
  "VALUE_ALIASES = [''value'', ''score'', ''overlap'', ''weight'', ''magnitude'']"

text \<open>The detection of the columns, \<^verbatim>\<open>_load_values\<close> lines 150-159: the last match wins.\<close>

fun detect_loop :: "nat \<Rightarrow> string list \<Rightarrow> nat \<times> nat \<Rightarrow> nat \<times> nat" where
  "detect_loop i [] cols = cols"
| "detect_loop i (h # hs) (label_col, value_col) =
     detect_loop (Suc i) hs
       (if h \<in> set LABEL_ALIASES then i else label_col,
        if h \<in> set VALUE_ALIASES then i else value_col)"

definition detect_columns :: "string list \<Rightarrow> nat \<times> nat" where
  "detect_columns header = detect_loop 0 (map (\<lambda>h. strip (lower h)) header) (0, 1)"

text \<open>
  The body of the two \<^verbatim>\<open>try\<close> blocks, lines 162-169 and 174-179: \<open>None\<close> when an
  \<^verbatim>\<open>IndexError\<close> or a \<^verbatim>\<open>ValueError\<close> is caught, else the pair to store.
\<close>

definition parse_row :: "externals \<Rightarrow> nat \<Rightarrow> nat \<Rightarrow> string list \<Rightarrow> (real \<times> real) option" where
  "parse_row ext label_col value_col row =
     (if label_col < length row then
        (case py_float ext (row ! label_col) of
           None \<Rightarrow> None
         | Some lbl \<Rightarrow>
             (if value_col < length row then
                (case py_float ext (row ! value_col) of
                   None \<Rightarrow> None
                 | Some val \<Rightarrow> Some (lbl, val))
              else None))
      else None)"

text \<open>The loop over the remaining rows, lines 171-179.\<close>

fun rows_loop ::
  "externals \<Rightarrow> nat \<Rightarrow> nat \<Rightarrow> string list list \<Rightarrow> (real \<times> real) list \<Rightarrow> (real \<times> real) list" where
  "rows_loop ext label_col value_col [] lv = lv"
| "rows_loop ext label_col value_col (row # rows) lv =
     (if length row < 2 then rows_loop ext label_col value_col rows lv
      else
        (case parse_row ext label_col value_col row of
           None \<Rightarrow> rows_loop ext label_col value_col rows lv
         | Some (lbl, val) \<Rightarrow> rows_loop ext label_col value_col rows (AList.update lbl val lv)))"

text \<open>
  The table after \<^verbatim>\<open>self.label_values.clear()\<close> and the reading of the rows, lines 143-179.
  An empty first row is falsy and is not looked at.
\<close>

definition read_values :: "externals \<Rightarrow> string list list \<Rightarrow> (real \<times> real) list" where
  "read_values ext rows =
     (case rows of
        [] \<Rightarrow> []
      | header # rest \<Rightarrow>
          (if header = [] then rows_loop ext 0 1 rest []
           else
             (let (label_col, value_col) = detect_columns header;
                  lv = (case parse_row ext label_col value_col header of
                          Some (lbl, val) \<Rightarrow> AList.update lbl val []
                        | None \<Rightarrow> [])
              in rows_loop ext label_col value_col rest lv)))"

text \<open>
  \<^verbatim>\<open>ColormapPanel._load_values\<close>, lines 134-191. The \<^verbatim>\<open>values_loaded\<close> signal has no slot;
  the callback is \<^verbatim>\<open>MeshGui._on_values_loaded\<close>. An exception raised while the file is
  read is swallowed by \<^verbatim>\<open>except Exception: pass\<close> after the rows read so far are stored,
  and so is one raised by the callback.
\<close>

definition load_values :: "externals \<Rightarrow> mesh_gui \<Rightarrow> mesh_gui outcome" where
  "load_values ext g =
     (let path = value_file_edit (colormap_panel g)
      in if \<not> path_exists ext path then Done g
         else
           (let (rows, failed) = csv_rows ext path;
                g1 = g\<lparr>colormap_panel := (colormap_panel g)\<lparr>label_values := read_values ext rows\<rparr>\<rparr>
            in if failed then Done g1
               else if label_values (colormap_panel g1) = [] then Done g1
               else caught (and_then (auto_range ext g1) (on_values_loaded ext))))"

text \<open>
  For the statements about the table: the rows of a file that count as valid
  (label, value) pairs, in the order of the file. A row after the first counts when it has
  at least two fields and both detected columns parse as floats; the first row counts when
  both detected columns parse as floats.
\<close>

definition row_entries :: "externals \<Rightarrow> nat \<Rightarrow> nat \<Rightarrow> string list list \<Rightarrow> (real \<times> real) list" where
  "row_entries ext label_col value_col rows =
     List.map_filter
       (\<lambda>row. if length row < 2 then None else parse_row ext label_col value_col row) rows"

definition parsed_entries :: "externals \<Rightarrow> string list list \<Rightarrow> (real \<times> real) list" where
  "parsed_entries ext rows =
     (case rows of
        [] \<Rightarrow> []
      | header # rest \<Rightarrow>
          (if header = [] then row_entries ext 0 1 rest
           else
             (let (label_col, value_col) = detect_columns header
              in (case parse_row ext label_col value_col header of
                    Some e \<Rightarrow> [e]
                  | None \<Rightarrow> [])
                 @ row_entries ext label_col value_col rest)))"


section \<open>Initial state and sample data\<close>

text \<open>
  The plotter after \<^verbatim>\<open>MeshRenderer.__init__\<close> and the window after \<^verbatim>\<open>MeshGui.__init__\<close>, with
  the initial values of the widgets.
\<close>

definition new_plotter :: plotter where
  "new_plotter =
     \<lparr>background = ''white'', parallel_projection = False, anti_aliasing = False,
      lights = [], actors = [], camera = DefaultCamera, camera_reset = False,
      ren_win = True\<rparr>"

definition new_gui :: mesh_gui where
  "new_gui =
     \<lparr>volume = None, spacing = None, origin = None, render_timer = None,
      label_list = \<lparr>list_items = [], label_colors = [], list_label_values = Own_dict []\<rparr>,
      colormap_panel =
        \<lparr>label_values = [], use_colormap = False, current_colormap = ''viridis'',
         colormap_vmin = None, colormap_vmax = None, vmin_spin = 0.0, vmax_spin = 1.0,
         value_file_edit = ''''\<rparr>,
      render_params =
        \<lparr>sigma_spin = 0.8, smooth_spin = 30, edges_chk = False,
         style_combo = ''3D shading'', view_combo = ''left''\<rparr>,
      plotter = new_plotter, status_lbl = Load_a_NIfTI_to_begin, render_calls = []\<rparr>"

text \<open>Concrete values on which the theorems are evaluated.\<close>

definition sample_mesh :: mesh where
  "sample_mesh = \<lparr>points = [(0, 0, 0), (1, 0, 0), (0, 1, 0)], faces = [[0, 1, 2]]\<rparr>"

definition sample_bounds :: "mesh list \<Rightarrow> bounds" where
  "sample_bounds ms = (if ms = [] then (-1, 1, -1, 1, -1, 1) else (0, 10, 0, 4, 0, 2))"

definition sample_ext :: externals where
  "sample_ext =
     \<lparr>geometry = sample_lib,
      scene_bounds = sample_bounds,
      path_exists = (\<lambda>p. p \<in> set [''atlas.nii'', ''corrupt.nii'', ''values.csv'', ''notes.csv'',
                                   ''first.csv'', ''big.csv'']),
      nib_load = (\<lambda>p. if p = ''atlas.nii''
                       then Inr \<lparr>fdata = Inr sample_volume, zooms = [1, 1, 1],
                                 affine_translation = (0, 0, 0)\<rparr>
                       else Inl ''not a NIfTI file''),
      csv_rows = (\<lambda>p. if p = ''values.csv''
                         then ([[''Label'', ''Value''], [''1'', ''0.2''], [''2'', ''0.8'']], False)
                       else if p = ''first.csv''
                         then ([[''1'', ''0.2''], [''2'', ''0.8''], [''1'', ''0.5'']], False)
                       else if p = ''big.csv''
                         then ([[''roi'', ''score''], [''1'', ''1000000'']], False)
                       else if p = ''notes.csv''
                         then ([[''region'', ''comment''], [''1'', ''n/a''], [''left'']], False)
                       else ([], True)),
      py_float = map_of [(''1'', 1), (''2'', 2), (''0.2'', 0.2), (''0.5'', 0.5), (''0.8'', 0.8),
                         (''1000000'', 1000000)],
      spin_round = (\<lambda>v. real_of_int (round (v * 1000)) / 1000),
      cmap_hex = (\<lambda>name x. if x \<le> 1 / 2 then ''#440154'' else ''#fde725'')\<rparr>"

text \<open>
  The initial window with a table of values stored in the colormap panel, and the same with
  the path of a file in the line edit of the panel.
\<close>

definition gui_with_values :: "(real \<times> real) list \<Rightarrow> mesh_gui" where
  "gui_with_values lv = new_gui\<lparr>colormap_panel := (colormap_panel new_gui)\<lparr>label_values := lv\<rparr>\<rparr>"

definition gui_with_file :: "string \<Rightarrow> (real \<times> real) list \<Rightarrow> mesh_gui" where
  "gui_with_file path lv =
     new_gui\<lparr>colormap_panel := (colormap_panel new_gui)\<lparr>label_values := lv, value_file_edit := path\<rparr>\<rparr>"

text \<open>
  The window after the sample volume was loaded, and the same in colormap mode with a value
  known for label 1 only.
\<close>

definition loaded_gui :: mesh_gui where
  "loaded_gui = load_volume sample_ext ''atlas.nii'' new_gui"

definition colormap_gui :: mesh_gui where
  "colormap_gui =
     loaded_gui\<lparr>colormap_panel :=
       (colormap_panel loaded_gui)\<lparr>label_values := [(1, 0.2)], use_colormap := True\<rparr>\<rparr>"


section \<open>Properties of the extraction\<close>

lemma extract_loop_eq:
  "extract_loop lib V sp org sg it rl th L acc =
     acc @ List.map_filter
       (\<lambda>l. map_option (Pair l) (extract_isosurface lib (label_mask V l) sp org th sg it rl)) L"
  by (induction L arbitrary: acc) (auto split: option.splits)

lemma extract_label_meshes_eq:
  "extract_label_meshes lib V L sp org sg it rl th =
     List.map_filter
       (\<lambda>l. map_option (Pair l) (extract_isosurface lib (label_mask V l) sp org th sg it rl)) L"
  by (simp add: extract_label_meshes_def extract_loop_eq)

lemma map_fst_map_filter_Pair:
  "map fst (List.map_filter (\<lambda>l. map_option (Pair l) (f l)) L) = filter (\<lambda>l. f l \<noteq> None) L"
  by (induction L) (auto split: option.splits)

lemma extract_isosurface_None_iff:
  "extract_isosurface lib F sp org th sg it rl = None \<longleftrightarrow>
     n_points (contour lib (if sg > 0 then gaussian_filter lib F sg else F) sp org th) = 0"
  by (simp add: extract_isosurface_def Let_def)

lemma extract_isosurface_n_points:
  assumes "\<And>m n r. n_points m \<noteq> 0 \<Longrightarrow> n_points (smooth lib m n r) \<noteq> 0"
    and "extract_isosurface lib F sp org th sg it rl = Some m"
  shows "n_points m \<noteq> 0"
  using assms by (auto simp: extract_isosurface_def Let_def split: if_splits)

text \<open>
  C1. The labels of the result are the labels of \<open>L\<close> whose extraction gives a mesh, in the
  order of \<open>L\<close>; a label is left out exactly when its iso-surface has no points; and no
  mesh of the result has zero points, provided that the library's mesh relaxation does
  not delete every point of a non-empty mesh.
\<close>

theorem extract_label_meshes_ordered_nonempty:
  assumes "\<And>m n r. n_points m \<noteq> 0 \<Longrightarrow> n_points (smooth lib m n r) \<noteq> 0"
  shows "set (map fst (extract_label_meshes lib V L sp org sg it rl th)) \<subseteq> set L
    \<and> subseq (map fst (extract_label_meshes lib V L sp org sg it rl th)) L
    \<and> map fst (extract_label_meshes lib V L sp org sg it rl th) =
        filter (\<lambda>l. n_points (contour lib
           (if sg > 0 then gaussian_filter lib (label_mask V l) sg else label_mask V l)
           sp org th) \<noteq> 0) L
    \<and> (\<forall>(l, m) \<in> set (extract_label_meshes lib V L sp org sg it rl th). n_points m \<noteq> 0)"
proof -
  let ?f = "\<lambda>l. extract_isosurface lib (label_mask V l) sp org th sg it rl"
  let ?R = "extract_label_meshes lib V L sp org sg it rl th"
  have labels: "map fst ?R = filter (\<lambda>l. ?f l \<noteq> None) L"
    by (simp add: extract_label_meshes_eq map_fst_map_filter_Pair)
  have sub: "subseq (map fst ?R) L"
    unfolding labels by simp
  have inL: "set (map fst ?R) \<subseteq> set L"
    unfolding labels by auto
  have filt: "filter (\<lambda>l. ?f l \<noteq> None) L =
      filter (\<lambda>l. n_points (contour lib
           (if sg > 0 then gaussian_filter lib (label_mask V l) sg else label_mask V l)
           sp org th) \<noteq> 0) L"
    by (simp add: extract_isosurface_None_iff)
  have one: "n_points m \<noteq> 0" if "(l, m) \<in> set ?R" for l m
  proof -
    from that have "?f l = Some m"
      by (auto simp: extract_label_meshes_eq List.map_filter_def)
    from extract_isosurface_n_points [OF assms this] show ?thesis .
  qed
  have nonempty: "\<forall>(l, m) \<in> set ?R. n_points m \<noteq> 0"
    using one by blast
  from inL sub labels filt nonempty show ?thesis by simp
qed

theorem extract_label_meshes_ordered_nonempty_witness:
  "map fst (extract_label_meshes sample_lib sample_volume [2, 5, 1] [1, 1, 1] (0, 0, 0) (4/5) 30 (1/10) (1/2))
       = [2, 1]
   \<and> subseq (map fst (extract_label_meshes sample_lib sample_volume [2, 5, 1] [1, 1, 1] (0, 0, 0) (4/5) 30 (1/10) (1/2)))
       [2, 5, 1]
   \<and> list_all (\<lambda>(l, m). n_points m \<noteq> 0)
       (extract_label_meshes sample_lib sample_volume [2, 5, 1] [1, 1, 1] (0, 0, 0) (4/5) 30 (1/10) (1/2))"
proof -
  have h: "\<And>m n r. n_points m \<noteq> 0 \<Longrightarrow> n_points (smooth sample_lib m n r) \<noteq> 0"
    by (simp add: sample_lib_def)
  have v: "map fst (extract_label_meshes sample_lib sample_volume [2, 5, 1] [1, 1, 1] (0, 0, 0) (4/5) 30 (1/10) (1/2))
       = [2, 1]"
    by (simp add: extract_label_meshes_def extract_isosurface_def label_mask_def sample_lib_def
        sample_volume_def n_points_def)
  note T = extract_label_meshes_ordered_nonempty
    [of sample_lib sample_volume "[2, 5, 1]" "[1, 1, 1]" "(0, 0, 0)" "4/5" 30 "1/10" "1/2", OF h]
  from T have a: "subseq (map fst (extract_label_meshes sample_lib sample_volume [2, 5, 1] [1, 1, 1]
      (0, 0, 0) (4/5) 30 (1/10) (1/2))) [2, 5, 1]"
    by blast
  from T have b: "list_all (\<lambda>(l, m). n_points m \<noteq> 0)
       (extract_label_meshes sample_lib sample_volume [2, 5, 1] [1, 1, 1] (0, 0, 0) (4/5) 30 (1/10) (1/2))"
    unfolding list_all_iff by blast
  from v a b show ?thesis by blast
qed

lemma label_mask_all_zero:
  "lbl \<notin> set (voxels V) \<Longrightarrow> \<forall>v \<in> set (voxels (label_mask V lbl)). v = 0"
  by (auto simp: label_mask_def)

text \<open>
  C2. A label that matches no voxel is left out of the result, whatever sigma and the
  number of relaxation iterations, at threshold 0.5: its mask is all zero, and so is the
  field given to the iso-surface call, provided that the library's Gaussian filter maps an
  all-zero field to an all-zero field and that its iso-surface of an all-zero field at 0.5
  has no points. The model is total: no error is raised.
\<close>

theorem unmatched_label_omitted:
  assumes blur: "\<And>f s. \<forall>v \<in> set (voxels f). v = 0 \<Longrightarrow>
                   \<forall>v \<in> set (voxels (gaussian_filter lib f s)). v = 0"
    and surf: "\<And>f sp org. \<forall>v \<in> set (voxels f). v = 0 \<Longrightarrow> n_points (contour lib f sp org (1/2)) = 0"
    and unmatched: "lbl \<notin> set (voxels V)"
  shows "extract_isosurface lib (label_mask V lbl) sp org (1/2) sg it rl = None
    \<and> lbl \<notin> fst ` set (extract_label_meshes lib V L sp org sg it rl (1/2))"
proof -
  let ?M = "label_mask V lbl"
  have z: "\<forall>v \<in> set (voxels ?M). v = 0"
    using unmatched by (rule label_mask_all_zero)
  have zf: "\<forall>v \<in> set (voxels (if sg > 0 then gaussian_filter lib ?M sg else ?M)). v = 0"
    using z blur [OF z] by simp
  have none: "extract_isosurface lib ?M sp org (1/2) sg it rl = None"
    unfolding extract_isosurface_None_iff using surf [OF zf] .
  have "map fst (extract_label_meshes lib V L sp org sg it rl (1/2)) =
      filter (\<lambda>l. extract_isosurface lib (label_mask V l) sp org (1/2) sg it rl \<noteq> None) L"
    by (simp add: extract_label_meshes_eq map_fst_map_filter_Pair)
  then have "fst ` set (extract_label_meshes lib V L sp org sg it rl (1/2)) =
      {l \<in> set L. extract_isosurface lib (label_mask V l) sp org (1/2) sg it rl \<noteq> None}"
    by (metis set_map set_filter)
  with none show ?thesis by simp
qed

theorem unmatched_label_omitted_witness:
  "5 \<notin> set (voxels sample_volume)
   \<and> extract_isosurface sample_lib (label_mask sample_volume 5) [1, 1, 1] (0, 0, 0) (1/2) (4/5) 30 (1/10) = None
   \<and> 5 \<notin> fst ` set (extract_label_meshes sample_lib sample_volume [2, 5, 1] [1, 1, 1] (0, 0, 0) (4/5) 30 (1/10) (1/2))"
proof -
  have b: "\<And>f s. \<forall>v \<in> set (voxels f). v = 0 \<Longrightarrow>
                   \<forall>v \<in> set (voxels (gaussian_filter sample_lib f s)). v = 0"
    by (simp add: sample_lib_def)
  have c: "\<And>f sp org. \<forall>v \<in> set (voxels f). v = 0 \<Longrightarrow>
                   n_points (contour sample_lib f sp org (1/2)) = 0"
    by (auto simp: sample_lib_def n_points_def filter_empty_conv)
  have u: "5 \<notin> set (voxels sample_volume)"
    by (simp add: sample_volume_def)
  from unmatched_label_omitted [of sample_lib 5 sample_volume "[1, 1, 1]" "(0, 0, 0)" "4/5" 30 "1/10" "[2, 5, 1]",
      OF b c u] u
  show ?thesis by blast
qed


section \<open>Properties of the renderer and of the camera presets\<close>

lemma add_mesh_actors_2d:
  "actors (add_mesh m col True se p) = actors p @
     [\<lparr>actor_mesh = m, color = col, show_edges = False, edge_color = ''#222222'',
       line_width = 1, smooth_shading = False, specular = 0, specular_power = 5,
       ambient = 1, diffuse = 0.1, lighting = False\<rparr>]"
  by (simp add: add_mesh_def)

lemma add_mesh_actors_3d:
  "actors (add_mesh m col False se p) = actors p @
     [\<lparr>actor_mesh = m, color = col, show_edges = se, edge_color = ''#222222'',
       line_width = 1, smooth_shading = True, specular = 0.15, specular_power = 5,
       ambient = 0.25, diffuse = 0.6, lighting = True\<rparr>]"
  by (simp add: add_mesh_def)

lemma add_meshes_actors_all:
  assumes "\<And>m col q. \<forall>a \<in> set (actors q). P a \<Longrightarrow> \<forall>a \<in> set (actors (add_mesh m col is_2d se q)). P a"
    and "\<forall>a \<in> set (actors p). P a"
  shows "\<forall>a \<in> set (actors (add_meshes cols is_2d se idx lms p)). P a"
  using assms(2)
proof (induction lms arbitrary: idx p)
  case Nil
  then show ?case by simp
next
  case (Cons x lms)
  obtain lbl m where x: "x = (lbl, m)" by (cases x)
  show ?case
    unfolding x add_meshes.simps Let_def
    by (rule Cons.IH) (rule assms(1) [OF Cons.prems])
qed

lemma add_meshes_length:
  "length (actors (add_meshes cols is_2d se idx lms p)) = length (actors p) + length lms"
  by (induction lms arbitrary: idx p) (auto simp: add_mesh_def Let_def split: prod.splits)

lemma apply_view_actors: "actors (apply_view sb view p) = actors p"
  by (simp add: apply_view_def set_view_def Let_def split: prod.splits)

lemma render_meshes_actors:
  "actors (render_meshes sb lms cols is_2d se view p) =
     actors (add_meshes cols is_2d se 0 lms (clear_and_setup_lights (configure_projection is_2d p)))"
  by (simp add: render_meshes_def apply_view_actors)

text \<open>
  C5. A mesh added in 2D-flat style gets ambient 1.0, diffuse 0.1, specular 0, no lighting,
  no smooth shading and no edges, whatever the edge-visibility flag; in 3D-shaded style it
  gets ambient 0.25, diffuse 0.6, specular 0.15, lighting, smooth shading, and edges as the
  flag says. Every actor of a rendered scene has the material of the style of that render
  pass, and there is one actor per mesh.
\<close>

theorem add_mesh_material_by_style:
  "actors (add_mesh m col True se p) = actors p @
     [\<lparr>actor_mesh = m, color = col, show_edges = False, edge_color = ''#222222'',
       line_width = 1, smooth_shading = False, specular = 0, specular_power = 5,
       ambient = 1, diffuse = 0.1, lighting = False\<rparr>]
   \<and> actors (add_mesh m col False se p) = actors p @
     [\<lparr>actor_mesh = m, color = col, show_edges = se, edge_color = ''#222222'',
       line_width = 1, smooth_shading = True, specular = 0.15, specular_power = 5,
       ambient = 0.25, diffuse = 0.6, lighting = True\<rparr>]
   \<and> length (actors (render_meshes sb lms cols is_2d se view p)) = length lms
   \<and> (\<forall>a \<in> set (actors (render_meshes sb lms cols True se view p)).
         ambient a = 1 \<and> diffuse a = 0.1 \<and> specular a = 0 \<and> \<not> lighting a
         \<and> \<not> smooth_shading a \<and> \<not> show_edges a)
   \<and> (\<forall>a \<in> set (actors (render_meshes sb lms cols False se view p)).
         ambient a = 0.25 \<and> diffuse a = 0.6 \<and> specular a = 0.15 \<and> lighting a
         \<and> smooth_shading a \<and> show_edges a = se)"
proof -
  have len: "length (actors (render_meshes sb lms cols is_2d se view p)) = length lms"
    by (simp add: render_meshes_actors add_meshes_length clear_and_setup_lights_def)
  have flat: "\<forall>a \<in> set (actors (render_meshes sb lms cols True se view p)).
         ambient a = 1 \<and> diffuse a = 0.1 \<and> specular a = 0 \<and> \<not> lighting a
         \<and> \<not> smooth_shading a \<and> \<not> show_edges a"
    unfolding render_meshes_actors
    by (rule add_meshes_actors_all) (simp_all add: add_mesh_actors_2d clear_and_setup_lights_def)
  have shaded: "\<forall>a \<in> set (actors (render_meshes sb lms cols False se view p)).
         ambient a = 0.25 \<and> diffuse a = 0.6 \<and> specular a = 0.15 \<and> lighting a
         \<and> smooth_shading a \<and> show_edges a = se"
    unfolding render_meshes_actors
    by (rule add_meshes_actors_all) (simp_all add: add_mesh_actors_3d clear_and_setup_lights_def)
  from add_mesh_actors_2d [of m col se p] add_mesh_actors_3d [of m col se p] len flat shaded
  show ?thesis by blast
qed

text \<open>
  C6. Preset \<open>iso\<close> and every unrecognised preset call the library's isometric view,
  whatever the bounds. Presets left, right, top and front set the focal point to the
  midpoint of the bounds and put the camera at distance 1.8 times max(width, height,
  depth, 1.0) from it, along -X, +X, +Z and -Y, with up-vector +Z, +Z, +Y and +Z.
\<close>

theorem set_view_presets:
  assumes "c = ((xmin + xmax) / 2, (ymin + ymax) / 2, (zmin + zmax) / 2)"
    and "d = 1.8 * max (max (max (xmax - xmin) (ymax - ymin)) (zmax - zmin)) 1"
    and "view \<notin> {''left'', ''right'', ''top'', ''front''}"
  shows "camera (set_view b ''iso'' p) = Isometric
    \<and> camera (set_view b view p) = Isometric
    \<and> camera (set_view (xmin, xmax, ymin, ymax, zmin, zmax) ''left'' p) =
        CameraPosition (fst c - d, fst (snd c), snd (snd c)) c (0, 0, 1)
    \<and> camera (set_view (xmin, xmax, ymin, ymax, zmin, zmax) ''right'' p) =
        CameraPosition (fst c + d, fst (snd c), snd (snd c)) c (0, 0, 1)
    \<and> camera (set_view (xmin, xmax, ymin, ymax, zmin, zmax) ''top'' p) =
        CameraPosition (fst c, fst (snd c), snd (snd c) + d) c (0, 1, 0)
    \<and> camera (set_view (xmin, xmax, ymin, ymax, zmin, zmax) ''front'' p) =
        CameraPosition (fst c, fst (snd c) - d, snd (snd c)) c (0, 0, 1)"
proof -
  have iso: "camera (set_view b ''iso'' p) = Isometric"
    by (simp add: set_view_def Let_def split: prod.splits)
  have other: "camera (set_view b view p) = Isometric"
    using assms(3) by (simp add: set_view_def Let_def split: prod.splits)
  have left: "camera (set_view (xmin, xmax, ymin, ymax, zmin, zmax) ''left'' p) =
        CameraPosition (fst c - d, fst (snd c), snd (snd c)) c (0, 0, 1)"
    by (simp add: set_view_def Let_def assms(1,2) mult.commute)
  have right: "camera (set_view (xmin, xmax, ymin, ymax, zmin, zmax) ''right'' p) =
        CameraPosition (fst c + d, fst (snd c), snd (snd c)) c (0, 0, 1)"
    by (simp add: set_view_def Let_def assms(1,2) mult.commute)
  have top: "camera (set_view (xmin, xmax, ymin, ymax, zmin, zmax) ''top'' p) =
        CameraPosition (fst c, fst (snd c), snd (snd c) + d) c (0, 1, 0)"
    by (simp add: set_view_def Let_def assms(1,2) mult.commute)
  have front: "camera (set_view (xmin, xmax, ymin, ymax, zmin, zmax) ''front'' p) =
        CameraPosition (fst c, fst (snd c) - d, snd (snd c)) c (0, 0, 1)"
    by (simp add: set_view_def Let_def assms(1,2) mult.commute)
  from iso other left right top front show ?thesis by blast
qed

theorem add_mesh_material_by_style_witness:
  "length (actors (render_meshes sample_bounds [(1, sample_mesh), (2, sample_mesh)]
       [(1, ''#4C78A8'')] True True ''left'' new_plotter)) = 2
   \<and> list_all (\<lambda>a. ambient a = 1 \<and> diffuse a = 0.1 \<and> specular a = 0 \<and> \<not> lighting a
         \<and> \<not> smooth_shading a \<and> \<not> show_edges a)
       (actors (render_meshes sample_bounds [(1, sample_mesh), (2, sample_mesh)]
         [(1, ''#4C78A8'')] True True ''left'' new_plotter))
   \<and> list_all (\<lambda>a. ambient a = 0.25 \<and> diffuse a = 0.6 \<and> specular a = 0.15 \<and> lighting a
         \<and> smooth_shading a \<and> show_edges a = True)
       (actors (render_meshes sample_bounds [(1, sample_mesh), (2, sample_mesh)]
         [(1, ''#4C78A8'')] False True ''left'' new_plotter))"
  unfolding list_all_iff
  using add_mesh_material_by_style [where se = True and p = new_plotter and sb = sample_bounds
      and lms = "[(1, sample_mesh), (2, sample_mesh)]" and cols = "[(1, ''#4C78A8'')]"
      and is_2d = True and view = "''left''"]
  by simp

theorem set_view_presets_witness:
  "(5, 2, 1) = (((0::real) + 10) / 2, ((0::real) + 4) / 2, ((0::real) + 2) / 2)
   \<and> (18::real) = 1.8 * max (max (max (10 - 0) (4 - 0)) (2 - 0)) 1
   \<and> ''bottom'' \<notin> {''left'', ''right'', ''top'', ''front''}
   \<and> camera (set_view (0, 10, 0, 4, 0, 2) ''iso'' new_plotter) = Isometric
   \<and> camera (set_view (0, 10, 0, 4, 0, 2) ''bottom'' new_plotter) = Isometric
   \<and> camera (set_view (0, 10, 0, 4, 0, 2) ''left'' new_plotter) =
        CameraPosition (-13, 2, 1) (5, 2, 1) (0, 0, 1)
   \<and> camera (set_view (0, 10, 0, 4, 0, 2) ''right'' new_plotter) =
        CameraPosition (23, 2, 1) (5, 2, 1) (0, 0, 1)
   \<and> camera (set_view (0, 10, 0, 4, 0, 2) ''top'' new_plotter) =
        CameraPosition (5, 2, 19) (5, 2, 1) (0, 1, 0)
   \<and> camera (set_view (0, 10, 0, 4, 0, 2) ''front'' new_plotter) =
        CameraPosition (5, -16, 1) (5, 2, 1) (0, 0, 1)"
proof -
  have h1: "(5, 2, 1) = (((0::real) + 10) / 2, ((0::real) + 4) / 2, ((0::real) + 2) / 2)"
    by simp
  have h2: "(18::real) = 1.8 * max (max (max (10 - 0) (4 - 0)) (2 - 0)) 1"
    by simp
  have h3: "''bottom'' \<notin> {''left'', ''right'', ''top'', ''front''}"
    by simp
  have c: "camera (set_view (0, 10, 0, 4, 0, 2) ''iso'' new_plotter) = Isometric
   \<and> camera (set_view (0, 10, 0, 4, 0, 2) ''bottom'' new_plotter) = Isometric
   \<and> camera (set_view (0, 10, 0, 4, 0, 2) ''left'' new_plotter) =
        CameraPosition (-13, 2, 1) (5, 2, 1) (0, 0, 1)
   \<and> camera (set_view (0, 10, 0, 4, 0, 2) ''right'' new_plotter) =
        CameraPosition (23, 2, 1) (5, 2, 1) (0, 0, 1)
   \<and> camera (set_view (0, 10, 0, 4, 0, 2) ''top'' new_plotter) =
        CameraPosition (5, 2, 19) (5, 2, 1) (0, 1, 0)
   \<and> camera (set_view (0, 10, 0, 4, 0, 2) ''front'' new_plotter) =
        CameraPosition (5, -16, 1) (5, 2, 1) (0, 0, 1)"
    using set_view_presets [OF h1 h2 h3, of "(0, 10, 0, 4, 0, 2)" new_plotter]
    by simp
  from h1 h2 h3 c show ?thesis by blast
qed


section \<open>Properties of the main window\<close>

lemma load_nii_volume_Inl:
  "nib_load ext path = Inl exc \<Longrightarrow> load_nii_volume ext path = Inl exc"
  "nib_load ext path = Inr nii \<Longrightarrow> fdata nii = Inl exc \<Longrightarrow> load_nii_volume ext path = Inl exc"
  by (simp_all add: load_nii_volume_def)

lemma render_scene_volume: "volume (render_scene ext g) = volume g"
  by (simp add: render_scene_def Let_def split: option.splits prod.splits)

lemma load_volume_sample_volume:
  "volume (load_volume sample_ext ''atlas.nii'' new_gui) = Some sample_volume"
  by (simp add: load_volume_def load_nii_volume_def sample_ext_def render_scene_volume Let_def)

text \<open>
  C8. A load that fails, because the path does not exist or because decoding raises (in
  \<^verbatim>\<open>nib.load\<close> or in \<^verbatim>\<open>get_fdata\<close>), only sets the status message: the state of the window is
  otherwise the one before the load, with the same volume, spacing, origin, label list
  and scene.
\<close>

theorem load_volume_failure_keeps_state:
  assumes "\<not> path_exists ext path \<and> msg = File_not_found path
     \<or> path_exists ext path \<and> nib_load ext path = Inl exc \<and> msg = Failed_to_load exc
     \<or> path_exists ext path \<and> nib_load ext path = Inr nii \<and> fdata nii = Inl exc
         \<and> msg = Failed_to_load exc"
  shows "load_volume ext path g = g\<lparr>status_lbl := msg\<rparr>
    \<and> volume (load_volume ext path g) = volume g
    \<and> spacing (load_volume ext path g) = spacing g
    \<and> origin (load_volume ext path g) = origin g
    \<and> label_list (load_volume ext path g) = label_list g
    \<and> plotter (load_volume ext path g) = plotter g"
proof -
  have "load_volume ext path g = g\<lparr>status_lbl := msg\<rparr>"
    using assms by (auto simp: load_volume_def load_nii_volume_Inl)
  then show ?thesis by simp
qed

theorem load_volume_failure_keeps_state_witness:
  "path_exists sample_ext ''corrupt.nii''
   \<and> nib_load sample_ext ''corrupt.nii'' = Inl ''not a NIfTI file''
   \<and> volume (load_volume sample_ext ''atlas.nii'' new_gui) = Some sample_volume
   \<and> load_volume sample_ext ''corrupt.nii'' (load_volume sample_ext ''atlas.nii'' new_gui) =
       (load_volume sample_ext ''atlas.nii'' new_gui)\<lparr>status_lbl := Failed_to_load ''not a NIfTI file''\<rparr>
   \<and> volume (load_volume sample_ext ''corrupt.nii'' (load_volume sample_ext ''atlas.nii'' new_gui)) =
       Some sample_volume
   \<and> \<not> path_exists sample_ext ''missing.nii''
   \<and> load_volume sample_ext ''missing.nii'' (load_volume sample_ext ''atlas.nii'' new_gui) =
       (load_volume sample_ext ''atlas.nii'' new_gui)\<lparr>status_lbl := File_not_found ''missing.nii''\<rparr>"
proof -
  have e: "path_exists sample_ext ''corrupt.nii''"
    and n: "nib_load sample_ext ''corrupt.nii'' = Inl ''not a NIfTI file''"
    and m: "\<not> path_exists sample_ext ''missing.nii''"
    by (simp_all add: sample_ext_def)
  have v: "volume (load_volume sample_ext ''atlas.nii'' new_gui) = Some sample_volume"
    by (rule load_volume_sample_volume)
  from load_volume_failure_keeps_state
    [of sample_ext "''corrupt.nii''" "Failed_to_load ''not a NIfTI file''" "''not a NIfTI file''" _
        "load_volume sample_ext ''atlas.nii'' new_gui"]
    load_volume_failure_keeps_state
    [of sample_ext "''missing.nii''" "File_not_found ''missing.nii''" _ _
        "load_volume sample_ext ''atlas.nii'' new_gui"]
    e n m v
  show ?thesis by simp
qed


section \<open>Properties of the render scheduling\<close>

lemma render_scene_timer: "render_timer (render_scene ext g) = render_timer g"
  by (simp add: render_scene_def Let_def split: option.splits prod.splits)

lemma render_scene_params: "render_params (render_scene ext g) = render_params g"
  by (simp add: render_scene_def Let_def split: option.splits prod.splits)

lemma render_scene_calls:
  "render_calls (render_scene ext g) = render_calls g @ [render_params g]"
  by (simp add: render_scene_def Let_def split: option.splits prod.splits)

lemma handle_event_loaded:
  assumes "volume g \<noteq> None" and "schedules_render e"
  shows "render_timer (handle_event ext e g) = Some RENDER_DEBOUNCE_MS"
    and "render_params (handle_event ext e g) = set_param e (render_params g)"
    and "render_calls (handle_event ext e g) = render_calls g"
    and "volume (handle_event ext e g) = volume g"
  using assms by (cases e; auto simp: schedule_render_def)+

lemma handle_event_idle:
  assumes "volume g = None"
  shows "render_timer (handle_event ext e g) = render_timer g"
    and "render_calls (handle_event ext e g) = render_calls g"
    and "volume (handle_event ext e g) = None"
  using assms by (cases e; simp add: schedule_render_def on_view_changed_def)+

lemma handle_event_view:
  "render_timer (handle_event ext (View_changed t) g) = render_timer g"
  "render_calls (handle_event ext (View_changed t) g) = render_calls g"
  "volume (handle_event ext (View_changed t) g) = volume g"
  "render_params (handle_event ext (View_changed t) g) = (render_params g)\<lparr>view_combo := t\<rparr>"
  "plotter (handle_event ext (View_changed t) g) = reset_view (scene_bounds ext) t (plotter g)"
  by (simp_all add: on_view_changed_def)

lemma elapse_inactive: "render_timer g = None \<Longrightarrow> elapse ext dt g = g"
  by (simp add: elapse_def)

lemma elapse_volume: "volume (elapse ext dt g) = volume g"
  by (simp add: elapse_def render_scene_volume split: option.splits)

lemma elapse_before_timeout:
  assumes "render_timer g = Some r" and "dt < r"
  shows "render_calls (elapse ext dt g) = render_calls g"
    and "render_params (elapse ext dt g) = render_params g"
    and "render_timer (elapse ext dt g) = Some (r - dt)"
  using assms by (simp_all add: elapse_def)

lemma elapse_timeout:
  assumes "render_timer g = Some r" and "r \<le> dt"
  shows "render_calls (elapse ext dt g) = render_calls g @ [render_params g]"
    and "render_params (elapse ext dt g) = render_params g"
    and "render_timer (elapse ext dt g) = None"
  using assms by (simp_all add: elapse_def render_scene_calls render_scene_params render_scene_timer)

text \<open>Within a burst that starts with the timer running, nothing is rendered.\<close>

lemma burst_pending:
  assumes "volume g \<noteq> None"
    and "render_timer g = Some RENDER_DEBOUNCE_MS"
    and "\<forall>(gap, e) \<in> set events. gap < RENDER_DEBOUNCE_MS \<and> schedules_render e"
  shows "volume (burst ext events g) = volume g
    \<and> render_timer (burst ext events g) = Some RENDER_DEBOUNCE_MS
    \<and> render_calls (burst ext events g) = render_calls g
    \<and> render_params (burst ext events g) = fold set_param (map snd events) (render_params g)"
  using assms
proof (induction events arbitrary: g)
  case Nil
  then show ?case by simp
next
  case (Cons x events)
  obtain gap e where x: "x = (gap, e)" by (cases x)
  let ?g1 = "handle_event ext e (elapse ext gap g)"
  from Cons.prems x have gap: "gap < RENDER_DEBOUNCE_MS" and sched: "schedules_render e"
    by simp_all
  have v: "volume (elapse ext gap g) \<noteq> None"
    using Cons.prems(1) by (simp add: elapse_volume)
  have v1: "volume ?g1 = volume g"
    using v sched by (simp add: handle_event_loaded elapse_volume)
  have t1: "render_timer ?g1 = Some RENDER_DEBOUNCE_MS"
    using v sched by (simp add: handle_event_loaded)
  have c1: "render_calls ?g1 = render_calls g"
    using v sched elapse_before_timeout(1) [OF Cons.prems(2) gap] by (simp add: handle_event_loaded)
  have p1: "render_params ?g1 = set_param e (render_params g)"
    using v sched elapse_before_timeout(2) [OF Cons.prems(2) gap] by (simp add: handle_event_loaded)
  have rest: "\<forall>(gap, e) \<in> set events. gap < RENDER_DEBOUNCE_MS \<and> schedules_render e"
    using Cons.prems(3) by simp
  have ih: "volume (burst ext events ?g1) = volume ?g1
    \<and> render_timer (burst ext events ?g1) = Some RENDER_DEBOUNCE_MS
    \<and> render_calls (burst ext events ?g1) = render_calls ?g1
    \<and> render_params (burst ext events ?g1) = fold set_param (map snd events) (render_params ?g1)"
    using Cons.IH [of ?g1] v1 Cons.prems(1) t1 rest by simp
  show ?case
    using ih v1 c1 p1 by (simp add: x)
qed

lemma burst_idle:
  assumes "volume g = None" and "render_timer g = None"
  shows "volume (burst ext events g) = None
    \<and> render_timer (burst ext events g) = None
    \<and> render_calls (burst ext events g) = render_calls g"
  using assms
proof (induction events arbitrary: g)
  case Nil
  then show ?case by simp
next
  case (Cons x events)
  obtain gap e where x: "x = (gap, e)" by (cases x)
  have el: "elapse ext gap g = g"
    using Cons.prems(2) by (rule elapse_inactive)
  show ?case
    using Cons.IH [of "handle_event ext e g"] Cons.prems
    by (simp add: x el handle_event_idle)
qed

text \<open>
  C7 (amended). With a volume loaded and no render pending, a burst of at least one change
  of sigma, of the smoothing iterations, of the edge visibility or of the style, each less
  than 80 ms after the one before, renders nothing while it lasts nor during any shorter
  wait after it; once 80 ms or more have passed after the last event exactly one render
  pass has run, with the parameters as the events of the burst left them, the timer has
  stopped and waiting longer renders nothing more. With no volume loaded, the events start
  no timer and nothing is ever rendered. A change of the view preset starts no timer and
  renders nothing: it resets the camera of the scene at once.
\<close>

theorem debounced_burst_renders_once:
  assumes "render_timer g = None"
    and "\<forall>(gap, e) \<in> set events. gap < RENDER_DEBOUNCE_MS"
    and "\<forall>(gap, e) \<in> set ((gap0, e0) # events). schedules_render e"
  shows "(volume g \<noteq> None \<longrightarrow> short < RENDER_DEBOUNCE_MS \<longrightarrow> RENDER_DEBOUNCE_MS \<le> quiet \<longrightarrow>
       render_calls (burst ext ((gap0, e0) # events) g) = render_calls g
     \<and> render_timer (burst ext ((gap0, e0) # events) g) = Some RENDER_DEBOUNCE_MS
     \<and> render_calls (elapse ext short (burst ext ((gap0, e0) # events) g)) = render_calls g
     \<and> render_calls (elapse ext quiet (burst ext ((gap0, e0) # events) g)) =
         render_calls g @ [fold set_param (map snd ((gap0, e0) # events)) (render_params g)]
     \<and> render_timer (elapse ext quiet (burst ext ((gap0, e0) # events) g)) = None
     \<and> render_calls (elapse ext later (elapse ext quiet (burst ext ((gap0, e0) # events) g))) =
         render_calls g @ [fold set_param (map snd ((gap0, e0) # events)) (render_params g)])
   \<and> (volume g = None \<longrightarrow>
       render_timer (burst ext ((gap0, e0) # events) g) = None
     \<and> render_calls (elapse ext later (burst ext ((gap0, e0) # events) g)) = render_calls g)
   \<and> render_timer (handle_event ext (View_changed t) h) = render_timer h
   \<and> render_calls (handle_event ext (View_changed t) h) = render_calls h
   \<and> plotter (handle_event ext (View_changed t) h) = reset_view (scene_bounds ext) t (plotter h)"
proof -
  let ?b = "burst ext ((gap0, e0) # events) g"
  let ?g1 = "handle_event ext e0 g"
  let ?rp = "fold set_param (map snd ((gap0, e0) # events)) (render_params g)"
  have b: "?b = burst ext events ?g1"
    using assms(1) by (simp add: elapse_inactive)
  have s0: "schedules_render e0"
    using assms(3) by simp
  have all: "\<forall>(gap, e) \<in> set events. gap < RENDER_DEBOUNCE_MS \<and> schedules_render e"
    using assms(2,3) by auto
  have loaded: "render_timer ?b = Some RENDER_DEBOUNCE_MS \<and> render_calls ?b = render_calls g
      \<and> render_params ?b = ?rp" if v: "volume g \<noteq> None"
  proof -
    have "volume (burst ext events ?g1) = volume ?g1
      \<and> render_timer (burst ext events ?g1) = Some RENDER_DEBOUNCE_MS
      \<and> render_calls (burst ext events ?g1) = render_calls ?g1
      \<and> render_params (burst ext events ?g1) = fold set_param (map snd events) (render_params ?g1)"
      using v s0 all by (intro burst_pending) (simp_all add: handle_event_loaded)
    then show ?thesis
      unfolding b using v s0 by (simp add: handle_event_loaded)
  qed
  have part1: "render_calls ?b = render_calls g
     \<and> render_timer ?b = Some RENDER_DEBOUNCE_MS
     \<and> render_calls (elapse ext short ?b) = render_calls g
     \<and> render_calls (elapse ext quiet ?b) = render_calls g @ [?rp]
     \<and> render_timer (elapse ext quiet ?b) = None
     \<and> render_calls (elapse ext later (elapse ext quiet ?b)) = render_calls g @ [?rp]"
    if v: "volume g \<noteq> None" and s: "short < RENDER_DEBOUNCE_MS" and q: "RENDER_DEBOUNCE_MS \<le> quiet"
  proof -
    from loaded [OF v] have t: "render_timer ?b = Some RENDER_DEBOUNCE_MS"
      and c: "render_calls ?b = render_calls g" and p: "render_params ?b = ?rp"
      by blast+
    have before: "render_calls (elapse ext short ?b) = render_calls g"
      using elapse_before_timeout(1) [OF t s] c by simp
    have fired: "render_calls (elapse ext quiet ?b) = render_calls g @ [?rp]"
      using elapse_timeout(1) [OF t q] c p by simp
    have stopped: "render_timer (elapse ext quiet ?b) = None"
      using elapse_timeout(3) [OF t q] .
    have after: "render_calls (elapse ext later (elapse ext quiet ?b)) = render_calls g @ [?rp]"
      using elapse_inactive [OF stopped] fired by simp
    from c t before fired stopped after show ?thesis by blast
  qed
  have part2: "render_timer ?b = None \<and> render_calls (elapse ext later ?b) = render_calls g"
    if v: "volume g = None"
  proof -
    from burst_idle [OF v assms(1), of ext "(gap0, e0) # events"]
    have i: "render_timer ?b = None" and c: "render_calls ?b = render_calls g"
      by simp_all
    from elapse_inactive [OF i] c i show ?thesis by simp
  qed
  from part1 part2 handle_event_view(1,2,5) [of ext t h] show ?thesis by blast
qed

lemma load_volume_sample_timer:
  "render_timer (load_volume sample_ext ''atlas.nii'' new_gui) = None"
  by (simp add: load_volume_def load_nii_volume_def sample_ext_def render_scene_timer Let_def new_gui_def)

lemma load_volume_sample_params:
  "render_params (load_volume sample_ext ''atlas.nii'' new_gui) =
     \<lparr>sigma_spin = 0.8, smooth_spin = 30, edges_chk = False,
      style_combo = ''3D shading'', view_combo = ''left''\<rparr>"
  by (simp add: load_volume_def load_nii_volume_def sample_ext_def render_scene_params Let_def new_gui_def)

theorem debounced_burst_renders_once_witness:
  "render_timer (load_volume sample_ext ''atlas.nii'' new_gui) = None
   \<and> volume (load_volume sample_ext ''atlas.nii'' new_gui) \<noteq> None
   \<and> (79::nat) < RENDER_DEBOUNCE_MS \<and> RENDER_DEBOUNCE_MS \<le> (80::nat)
   \<and> render_calls (elapse sample_ext 79 (burst sample_ext
         [(500, Sigma_changed 1.5), (30, Style_changed ''2D flat''), (79, Sigma_changed 2)]
         (load_volume sample_ext ''atlas.nii'' new_gui))) =
       render_calls (load_volume sample_ext ''atlas.nii'' new_gui)
   \<and> render_calls (elapse sample_ext 80 (burst sample_ext
         [(500, Sigma_changed 1.5), (30, Style_changed ''2D flat''), (79, Sigma_changed 2)]
         (load_volume sample_ext ''atlas.nii'' new_gui))) =
       render_calls (load_volume sample_ext ''atlas.nii'' new_gui) @
         [\<lparr>sigma_spin = 2, smooth_spin = 30, edges_chk = False,
           style_combo = ''2D flat'', view_combo = ''left''\<rparr>]
   \<and> render_calls (elapse sample_ext 1000 (elapse sample_ext 80 (burst sample_ext
         [(500, Sigma_changed 1.5), (30, Style_changed ''2D flat''), (79, Sigma_changed 2)]
         (load_volume sample_ext ''atlas.nii'' new_gui)))) =
       render_calls (load_volume sample_ext ''atlas.nii'' new_gui) @
         [\<lparr>sigma_spin = 2, smooth_spin = 30, edges_chk = False,
           style_combo = ''2D flat'', view_combo = ''left''\<rparr>]
   \<and> render_timer new_gui = None \<and> volume new_gui = None
   \<and> render_timer (burst sample_ext
         [(500, Sigma_changed 1.5), (30, Style_changed ''2D flat''), (79, Sigma_changed 2)]
         new_gui) = None
   \<and> render_calls (elapse sample_ext 1000 (burst sample_ext
         [(500, Sigma_changed 1.5), (30, Style_changed ''2D flat''), (79, Sigma_changed 2)]
         new_gui)) = []"
proof -
  let ?G = "load_volume sample_ext ''atlas.nii'' new_gui"
  let ?es = "[(30::nat, Style_changed ''2D flat''), (79, Sigma_changed 2)]"
  let ?rp = "\<lparr>sigma_spin = 2, smooth_spin = 30, edges_chk = False,
           style_combo = ''2D flat'', view_combo = ''left''\<rparr>"
  have t: "render_timer ?G = None"
    by (rule load_volume_sample_timer)
  have gaps: "\<forall>(gap, e) \<in> set ?es. gap < RENDER_DEBOUNCE_MS"
    by (simp add: RENDER_DEBOUNCE_MS_def)
  have kinds: "\<forall>(gap, e) \<in> set ((500::nat, Sigma_changed 1.5) # ?es). schedules_render e"
    by simp
  have v: "volume ?G \<noteq> None"
    by (simp add: load_volume_sample_volume)
  have s: "(79::nat) < RENDER_DEBOUNCE_MS" and q: "RENDER_DEBOUNCE_MS \<le> (80::nat)"
    by (simp_all add: RENDER_DEBOUNCE_MS_def)
  have t0: "render_timer new_gui = None" and v0: "volume new_gui = None"
    and c0: "render_calls new_gui = []"
    by (simp_all add: new_gui_def)
  have l: "fold set_param (map snd ((500::nat, Sigma_changed 1.5) # ?es)) (render_params ?G) = ?rp"
    by (simp add: load_volume_sample_params)
  from debounced_burst_renders_once
    [OF t gaps kinds, where short = 79 and quiet = 80 and ext = sample_ext and later = 1000]
    v s q
  have "render_calls (elapse sample_ext 79 (burst sample_ext
         ((500, Sigma_changed 1.5) # ?es) ?G)) = render_calls ?G
   \<and> render_calls (elapse sample_ext 80 (burst sample_ext
         ((500, Sigma_changed 1.5) # ?es) ?G)) =
       render_calls ?G @ [fold set_param (map snd ((500::nat, Sigma_changed 1.5) # ?es)) (render_params ?G)]
   \<and> render_calls (elapse sample_ext 1000 (elapse sample_ext 80 (burst sample_ext
         ((500, Sigma_changed 1.5) # ?es) ?G))) =
       render_calls ?G @ [fold set_param (map snd ((500::nat, Sigma_changed 1.5) # ?es)) (render_params ?G)]"
    by blast
  then have loaded: "render_calls (elapse sample_ext 79 (burst sample_ext
         ((500, Sigma_changed 1.5) # ?es) ?G)) = render_calls ?G
   \<and> render_calls (elapse sample_ext 80 (burst sample_ext
         ((500, Sigma_changed 1.5) # ?es) ?G)) = render_calls ?G @ [?rp]
   \<and> render_calls (elapse sample_ext 1000 (elapse sample_ext 80 (burst sample_ext
         ((500, Sigma_changed 1.5) # ?es) ?G))) = render_calls ?G @ [?rp]"
    by (simp only: l)
  from debounced_burst_renders_once
    [OF t0 gaps kinds, where short = 79 and quiet = 80 and ext = sample_ext and later = 1000]
    v0
  have "render_timer (burst sample_ext ((500, Sigma_changed 1.5) # ?es) new_gui) = None
   \<and> render_calls (elapse sample_ext 1000 (burst sample_ext
         ((500, Sigma_changed 1.5) # ?es) new_gui)) = render_calls new_gui"
    by blast
  then have idle: "render_timer (burst sample_ext ((500, Sigma_changed 1.5) # ?es) new_gui) = None
   \<and> render_calls (elapse sample_ext 1000 (burst sample_ext
         ((500, Sigma_changed 1.5) # ?es) new_gui)) = []"
    by (simp only: c0)
  from t v s q loaded t0 v0 idle show ?thesis by blast
qed

theorem view_change_schedules_no_render_counterexample:
  "volume (load_volume sample_ext ''atlas.nii'' new_gui) \<noteq> None
   \<and> render_timer (load_volume sample_ext ''atlas.nii'' new_gui) = None
   \<and> render_timer (burst sample_ext [(0, View_changed ''top'')]
         (load_volume sample_ext ''atlas.nii'' new_gui)) = None
   \<and> render_calls (elapse sample_ext 80 (burst sample_ext [(0, View_changed ''top'')]
         (load_volume sample_ext ''atlas.nii'' new_gui))) =
       render_calls (load_volume sample_ext ''atlas.nii'' new_gui)
   \<and> render_calls (elapse sample_ext 80 (burst sample_ext [(0, View_changed ''top'')]
         (load_volume sample_ext ''atlas.nii'' new_gui))) \<noteq>
       render_calls (load_volume sample_ext ''atlas.nii'' new_gui) @
         [render_params (burst sample_ext [(0, View_changed ''top'')]
            (load_volume sample_ext ''atlas.nii'' new_gui))]
   \<and> render_timer (burst sample_ext [(0, Sigma_changed 1.5), (50, View_changed ''top'')]
         (load_volume sample_ext ''atlas.nii'' new_gui)) = Some 30
   \<and> (30::nat) < RENDER_DEBOUNCE_MS
   \<and> render_calls (elapse sample_ext 30
         (burst sample_ext [(0, Sigma_changed 1.5), (50, View_changed ''top'')]
            (load_volume sample_ext ''atlas.nii'' new_gui))) =
       render_calls (load_volume sample_ext ''atlas.nii'' new_gui) @
         [render_params (burst sample_ext [(0, Sigma_changed 1.5), (50, View_changed ''top'')]
            (load_volume sample_ext ''atlas.nii'' new_gui))]"
proof -
  let ?G = "load_volume sample_ext ''atlas.nii'' new_gui"
  let ?b = "burst sample_ext [(0, View_changed ''top'')] ?G"
  let ?g1 = "handle_event sample_ext (Sigma_changed 1.5) ?G"
  let ?g2 = "elapse sample_ext 50 ?g1"
  let ?c = "burst sample_ext [(0, Sigma_changed 1.5), (50, View_changed ''top'')] ?G"
  have t: "render_timer ?G = None"
    by (rule load_volume_sample_timer)
  have v: "volume ?G \<noteq> None"
    by (simp add: load_volume_sample_volume)
  have b: "?b = handle_event sample_ext (View_changed ''top'') ?G"
    using elapse_inactive [OF t] by simp
  have tb: "render_timer ?b = None"
    unfolding b using t by (simp only: handle_event_view)
  have cb: "render_calls ?b = render_calls ?G"
    unfolding b by (simp only: handle_event_view)
  have c: "render_calls (elapse sample_ext 80 ?b) = render_calls ?G"
    using elapse_inactive [OF tb] cb by simp
  then have n: "render_calls (elapse sample_ext 80 ?b) \<noteq> render_calls ?G @ [render_params ?b]"
    by simp
  have s: "schedules_render (Sigma_changed 1.5)"
    by simp
  have t1: "render_timer ?g1 = Some 80"
    using handle_event_loaded(1) [OF v s, of sample_ext] by (simp add: RENDER_DEBOUNCE_MS_def)
  have c1: "render_calls ?g1 = render_calls ?G"
    by (rule handle_event_loaded(3) [OF v s])
  have lt: "(50::nat) < 80" by simp
  have t2: "render_timer ?g2 = Some 30"
    using elapse_before_timeout(3) [OF t1 lt, of sample_ext] by simp
  have c2: "render_calls ?g2 = render_calls ?G"
    using elapse_before_timeout(1) [OF t1 lt, of sample_ext] c1 by simp
  have cc: "?c = handle_event sample_ext (View_changed ''top'') ?g2"
    using elapse_inactive [OF t] by simp
  have tc: "render_timer ?c = Some 30"
    unfolding cc using t2 by (simp only: handle_event_view)
  have cc2: "render_calls ?c = render_calls ?G"
    unfolding cc using c2 by (simp only: handle_event_view)
  have le: "(30::nat) \<le> 30" by simp
  have r: "render_calls (elapse sample_ext 30 ?c) = render_calls ?G @ [render_params ?c]"
    using elapse_timeout(1) [OF tc le, of sample_ext] cc2 by simp
  have q: "(30::nat) < RENDER_DEBOUNCE_MS"
    by (simp add: RENDER_DEBOUNCE_MS_def)
  from v t tb c n tc q r show ?thesis by blast
qed

section \<open>The sample states\<close>

lemma render_scene_label_list: "label_list (render_scene ext g) = label_list g"
  by (simp add: render_scene_def Let_def split: option.splits prod.splits)

lemma render_scene_panel: "colormap_panel (render_scene ext g) = colormap_panel g"
  by (simp add: render_scene_def Let_def split: option.splits prod.splits)

lemma sample_labels: "sort (remdups (filter (\<lambda>v. v \<noteq> 0) (voxels sample_volume))) = [1, 2]"
  by (simp add: sample_volume_def)

lemma sample_load_nii:
  "path_exists sample_ext ''atlas.nii''"
  "load_nii_volume sample_ext ''atlas.nii'' = Inr (sample_volume, [1, 1, 1], (0, 0, 0))"
  by (simp_all add: load_nii_volume_def sample_ext_def)

lemma sample_cmap_hex:
  "cmap_hex sample_ext name x = (if x \<le> 1 / 2 then ''#440154'' else ''#fde725'')"
  "geometry sample_ext = sample_lib"
  "scene_bounds sample_ext = sample_bounds"
  by (simp_all add: sample_ext_def)

lemma new_gui_panels:
  "colormap_panel new_gui =
     \<lparr>label_values = [], use_colormap = False, current_colormap = ''viridis'',
      colormap_vmin = None, colormap_vmax = None, vmin_spin = 0, vmax_spin = 1,
      value_file_edit = ''''\<rparr>"
  "label_list new_gui = \<lparr>list_items = [], label_colors = [], list_label_values = Own_dict []\<rparr>"
  "render_params new_gui =
     \<lparr>sigma_spin = 0.8, smooth_spin = 30, edges_chk = False,
      style_combo = ''3D shading'', view_combo = ''left''\<rparr>"
  "plotter new_gui = new_plotter"
  by (simp_all add: new_gui_def)

lemma loaded_gui_label_list:
  "label_list loaded_gui =
     \<lparr>list_items = [\<lparr>item_label = 1, item_checked = True\<rparr>, \<lparr>item_label = 2, item_checked = True\<rparr>],
      label_colors = [(1, ''#4C78A8''), (2, ''#E45756'')],
      list_label_values = Own_dict []\<rparr>"
  by (simp add: loaded_gui_def load_volume_def sample_load_nii Let_def
      render_scene_label_list sample_labels populate_labels_def new_gui_panels default_color_def
      PALETTE_def)

lemma loaded_gui_fields:
  "volume loaded_gui = Some sample_volume"
  "colormap_panel loaded_gui = colormap_panel new_gui"
  by (simp_all add: loaded_gui_def load_volume_def sample_load_nii Let_def
      render_scene_volume render_scene_panel)

lemma colormap_gui_fields:
  "label_list colormap_gui = label_list loaded_gui"
  "colormap_panel colormap_gui =
     (colormap_panel new_gui)\<lparr>label_values := [(1, 0.2)], use_colormap := True\<rparr>"
  by (simp_all add: colormap_gui_def loaded_gui_fields)

lemma loaded_gui_more:
  "spacing loaded_gui = Some [1, 1, 1]"
  "origin loaded_gui = Some (0, 0, 0)"
  "render_params loaded_gui = render_params new_gui"
  by (simp_all add: loaded_gui_def load_volume_def sample_load_nii Let_def render_scene_params
      render_scene_def split: option.splits prod.splits)

lemma colormap_gui_more:
  "volume colormap_gui = Some sample_volume"
  "spacing colormap_gui = Some [1, 1, 1]"
  "origin colormap_gui = Some (0, 0, 0)"
  "render_params colormap_gui = render_params new_gui"
  by (simp_all add: colormap_gui_def loaded_gui_fields loaded_gui_more)

lemma sample_extraction:
  "extract_label_meshes sample_lib sample_volume [1, 2] [1, 1, 1] (0, 0, 0) (4 / 5) 30 (1 / 10) (1 / 2) =
     [(1, \<lparr>points = [(0, 0, 0), (0, 0, 0)], faces = []\<rparr>), (2, \<lparr>points = [(0, 0, 0)], faces = []\<rparr>)]"
  by (simp add: extract_label_meshes_def extract_isosurface_def label_mask_def sample_lib_def
      sample_volume_def n_points_def)


section \<open>Properties of the colormap range\<close>

lemma state_of_caught: "state_of (caught r) = state_of r"
  by (cases r) simp_all

lemma state_of_in_slot: "state_of (in_slot r) = state_of r"
  by (cases r) simp_all

lemma and_then_state:
  assumes "\<And>s. P (state_of (f s)) = P s"
  shows "P (state_of (and_then r f)) = P (state_of r)"
  using assms by (cases r) simp_all

lemma schedule_render_panel: "colormap_panel (schedule_render g) = colormap_panel g"
  by (simp add: schedule_render_def)

lemma update_colors_panel:
  "colormap_panel (state_of (update_colors_from_colormap ext g)) = colormap_panel g"
  by (simp add: update_colors_from_colormap_def Let_def split: sum.splits)

lemma on_colormap_changed_panel:
  "colormap_panel (state_of (on_colormap_changed ext g)) = colormap_panel g"
  unfolding on_colormap_changed_def
  by (cases "update_colors_from_colormap ext g")
    (use update_colors_panel [of ext g] in \<open>simp_all add: schedule_render_panel\<close>)

lemma on_values_loaded_panel:
  "colormap_panel (state_of (on_values_loaded ext g)) = colormap_panel g"
  unfolding on_values_loaded_def Let_def
  by (cases "update_colors_from_colormap ext (g\<lparr>label_list := set_label_values Panel_dict (label_list g)\<rparr>)")
    (use update_colors_panel [of ext "g\<lparr>label_list := set_label_values Panel_dict (label_list g)\<rparr>"]
      in \<open>simp_all add: schedule_render_panel\<close>)

lemma on_range_changed_panel:
  "colormap_panel (state_of (on_range_changed ext g)) =
     (colormap_panel g)\<lparr>colormap_vmin := Some (vmin_spin (colormap_panel g)),
                        colormap_vmax := Some (vmax_spin (colormap_panel g))\<rparr>"
  by (simp add: on_range_changed_def Let_def state_of_in_slot on_colormap_changed_panel)

lemma vmin_spin_setValue_panel:
  assumes "colormap_range (colormap_panel g) = (vmin_spin (colormap_panel g), vmax_spin (colormap_panel g))"
  shows "vmin_spin (colormap_panel (state_of (vmin_spin_setValue ext v g))) = spin_stored ext v"
    and "vmax_spin (colormap_panel (state_of (vmin_spin_setValue ext v g))) = vmax_spin (colormap_panel g)"
    and "label_values (colormap_panel (state_of (vmin_spin_setValue ext v g))) =
           label_values (colormap_panel g)"
    and "use_colormap (colormap_panel (state_of (vmin_spin_setValue ext v g))) =
           use_colormap (colormap_panel g)"
    and "colormap_range (colormap_panel (state_of (vmin_spin_setValue ext v g))) =
           (spin_stored ext v, vmax_spin (colormap_panel g))"
  using assms
  by (auto simp: vmin_spin_setValue_def Let_def on_range_changed_panel colormap_range_def)

lemma vmax_spin_setValue_panel:
  assumes "colormap_range (colormap_panel g) = (vmin_spin (colormap_panel g), vmax_spin (colormap_panel g))"
  shows "vmin_spin (colormap_panel (state_of (vmax_spin_setValue ext v g))) = vmin_spin (colormap_panel g)"
    and "vmax_spin (colormap_panel (state_of (vmax_spin_setValue ext v g))) = spin_stored ext v"
    and "label_values (colormap_panel (state_of (vmax_spin_setValue ext v g))) =
           label_values (colormap_panel g)"
    and "colormap_range (colormap_panel (state_of (vmax_spin_setValue ext v g))) =
           (vmin_spin (colormap_panel g), spin_stored ext v)"
  using assms
  by (auto simp: vmax_spin_setValue_def Let_def on_range_changed_panel colormap_range_def)

text \<open>With the minimum of the range not above its maximum, no colour computation raises.\<close>

lemma get_color_for_value_ordered:
  assumes "fst (colormap_range cp) \<le> snd (colormap_range cp)"
  shows "get_color_for_value ext cp v =
     Inr (cmap_hex ext (current_colormap cp)
       (if fst (colormap_range cp) = snd (colormap_range cp) then 0
        else (v - fst (colormap_range cp)) / (snd (colormap_range cp) - fst (colormap_range cp))))"
  using assms by (auto simp: get_color_for_value_def normalize_def colormap_range_def Let_def
      split: option.splits)

lemma compute_colors_loop_ordered:
  assumes "fst (colormap_range cp) \<le> snd (colormap_range cp)"
  shows "\<exists>cs. compute_colors_loop ext cp labels colors = Inr cs"
proof (induction labels arbitrary: colors)
  case Nil
  then show ?case by simp
next
  case (Cons lbl labels)
  show ?case
    using Cons.IH get_color_for_value_ordered [OF assms, of ext]
    by (auto split: option.splits)
qed

lemma update_colors_done:
  assumes "\<not> use_colormap (colormap_panel g)
           \<or> fst (colormap_range (colormap_panel g)) \<le> snd (colormap_range (colormap_panel g))"
  shows "update_colors_from_colormap ext g = Done (state_of (update_colors_from_colormap ext g))"
proof (cases "use_colormap (colormap_panel g)")
  case False
  then show ?thesis by (simp add: update_colors_from_colormap_def)
next
  case True
  with assms have "fst (colormap_range (colormap_panel g)) \<le> snd (colormap_range (colormap_panel g))"
    by simp
  from compute_colors_loop_ordered [OF this, of ext "map fst (label_colors (label_list g))" "[]"]
  show ?thesis
    using True by (auto simp: update_colors_from_colormap_def compute_colors_def Let_def)
qed

lemma on_colormap_changed_done:
  assumes "\<not> use_colormap (colormap_panel g)
           \<or> fst (colormap_range (colormap_panel g)) \<le> snd (colormap_range (colormap_panel g))"
  shows "on_colormap_changed ext g = Done (state_of (on_colormap_changed ext g))"
  using update_colors_done [OF assms, of ext]
  by (cases "update_colors_from_colormap ext g") (simp_all add: on_colormap_changed_def)

lemma on_range_changed_done:
  assumes "\<not> use_colormap (colormap_panel g)
           \<or> vmin_spin (colormap_panel g) \<le> vmax_spin (colormap_panel g)"
  shows "on_range_changed ext g = Done (state_of (on_range_changed ext g))"
proof (cases "use_colormap (colormap_panel g)")
  case False
  then show ?thesis by (simp add: on_range_changed_def Let_def)
next
  case True
  let ?g1 = "g\<lparr>colormap_panel := (colormap_panel g)\<lparr>colormap_vmin := Some (vmin_spin (colormap_panel g)),
      colormap_vmax := Some (vmax_spin (colormap_panel g))\<rparr>\<rparr>"
  have "fst (colormap_range (colormap_panel ?g1)) \<le> snd (colormap_range (colormap_panel ?g1))"
    using assms True by (simp add: colormap_range_def)
  then have d: "on_colormap_changed ext ?g1 = Done (state_of (on_colormap_changed ext ?g1))"
    by (intro on_colormap_changed_done) simp
  have "on_range_changed ext g = in_slot (on_colormap_changed ext ?g1)"
    using True by (simp add: on_range_changed_def Let_def)
  with d show ?thesis by (metis in_slot.simps(1) state_of.simps(1))
qed

lemma vmin_spin_setValue_done:
  assumes "\<not> use_colormap (colormap_panel g) \<or> spin_stored ext v \<le> vmax_spin (colormap_panel g)"
  shows "vmin_spin_setValue ext v g = Done (state_of (vmin_spin_setValue ext v g))"
proof (cases "spin_stored ext v = vmin_spin (colormap_panel g)")
  case True
  then show ?thesis by (simp add: vmin_spin_setValue_def)
next
  case False
  let ?g1 = "g\<lparr>colormap_panel := (colormap_panel g)\<lparr>vmin_spin := spin_stored ext v\<rparr>\<rparr>"
  have "on_range_changed ext ?g1 = Done (state_of (on_range_changed ext ?g1))"
    using assms by (intro on_range_changed_done) simp
  then show ?thesis
    using False by (simp add: vmin_spin_setValue_def Let_def)
qed

lemma vmax_spin_setValue_done:
  assumes "\<not> use_colormap (colormap_panel g) \<or> vmin_spin (colormap_panel g) \<le> spin_stored ext v"
  shows "vmax_spin_setValue ext v g = Done (state_of (vmax_spin_setValue ext v g))"
proof (cases "spin_stored ext v = vmax_spin (colormap_panel g)")
  case True
  then show ?thesis by (simp add: vmax_spin_setValue_def)
next
  case False
  let ?g1 = "g\<lparr>colormap_panel := (colormap_panel g)\<lparr>vmax_spin := spin_stored ext v\<rparr>\<rparr>"
  have "on_range_changed ext ?g1 = Done (state_of (on_range_changed ext ?g1))"
    using assms by (intro on_range_changed_done) simp
  then show ?thesis
    using False by (simp add: vmax_spin_setValue_def Let_def)
qed

lemma fold_min_Min: "fold min xs (x::real) = Min (set (x # xs))"
  by (rule Min.set_eq_fold [symmetric])

lemma fold_max_Max: "fold max xs (x::real) = Max (set (x # xs))"
  by (rule Max.set_eq_fold [symmetric])

lemma auto_range_unfold:
  assumes "map snd (label_values (colormap_panel g)) = vals" and "vals \<noteq> []"
    and "lo = Min (set vals)" and "hi = Max (set vals)"
    and "margin = (if lo < hi then (hi - lo) * 0.05 else 0.1)"
  shows "auto_range ext g =
     and_then (vmin_spin_setValue ext (lo - margin) g) (vmax_spin_setValue ext (hi + margin))"
proof -
  obtain x xs where c: "vals = x # xs"
    using assms(2) by (cases vals) auto
  show ?thesis
    using assms(1,3,4,5) c by (simp add: auto_range_def Let_def fold_min_Min fold_max_Max)
qed

lemma auto_range_nonempty:
  assumes sync: "colormap_range (colormap_panel g) =
                   (vmin_spin (colormap_panel g), vmax_spin (colormap_panel g))"
    and vals: "map snd (label_values (colormap_panel g)) = vals" "vals \<noteq> []"
    and lo: "lo = Min (set vals)" and hi: "hi = Max (set vals)"
    and margin: "margin = (if lo < hi then (hi - lo) * 0.05 else 0.1)"
    and safe: "use_colormap (colormap_panel g) \<longrightarrow>
                 spin_stored ext (lo - margin) \<le> vmax_spin (colormap_panel g)
               \<and> spin_stored ext (lo - margin) \<le> spin_stored ext (hi + margin)"
  shows "auto_range ext g = Done (state_of (auto_range ext g))"
    and "colormap_range (colormap_panel (state_of (auto_range ext g))) =
           (spin_stored ext (lo - margin), spin_stored ext (hi + margin))"
proof -
  let ?r1 = "vmin_spin_setValue ext (lo - margin) g"
  let ?g1 = "state_of ?r1"
  have a: "auto_range ext g = and_then ?r1 (vmax_spin_setValue ext (hi + margin))"
    using vals lo hi margin by (rule auto_range_unfold)
  have d1: "?r1 = Done ?g1"
    using safe by (intro vmin_spin_setValue_done) blast
  note s1 = vmin_spin_setValue_panel [OF sync, of ext "lo - margin"]
  have sync1: "colormap_range (colormap_panel ?g1) =
      (vmin_spin (colormap_panel ?g1), vmax_spin (colormap_panel ?g1))"
    using s1 by simp
  have a2: "auto_range ext g = vmax_spin_setValue ext (hi + margin) ?g1"
    unfolding a by (subst d1) simp
  have d2: "vmax_spin_setValue ext (hi + margin) ?g1 =
      Done (state_of (vmax_spin_setValue ext (hi + margin) ?g1))"
    using safe s1 by (intro vmax_spin_setValue_done) auto
  note s2 = vmax_spin_setValue_panel [OF sync1, of ext "hi + margin"]
  show "auto_range ext g = Done (state_of (auto_range ext g))"
    unfolding a2 by (rule d2)
  show "colormap_range (colormap_panel (state_of (auto_range ext g))) =
           (spin_stored ext (lo - margin), spin_stored ext (hi + margin))"
    unfolding a2 using s1 s2 by simp
qed

lemma auto_range_empty: "label_values (colormap_panel g) = [] \<Longrightarrow> auto_range ext g = Done g"
  by (simp add: auto_range_def)

lemma setValue_label_values:
  "label_values (colormap_panel (state_of (vmin_spin_setValue ext v g))) = label_values (colormap_panel g)"
  "label_values (colormap_panel (state_of (vmax_spin_setValue ext v g))) = label_values (colormap_panel g)"
  by (simp_all add: vmin_spin_setValue_def vmax_spin_setValue_def Let_def on_range_changed_panel)

lemma auto_range_label_values:
  "label_values (colormap_panel (state_of (auto_range ext g))) = label_values (colormap_panel g)"
proof (cases "map snd (label_values (colormap_panel g))")
  case Nil
  then show ?thesis by (simp add: auto_range_def)
next
  case (Cons x xs)
  have "label_values (colormap_panel (state_of (and_then r (vmax_spin_setValue ext v)))) =
      label_values (colormap_panel (state_of r))" for r v
    by (rule and_then_state) (simp add: setValue_label_values)
  then show ?thesis
    using Cons by (simp add: auto_range_def Let_def setValue_label_values)
qed

lemma spin_stored_exact:
  "spin_round ext v = v \<Longrightarrow> - 1000000 \<le> v \<Longrightarrow> v \<le> 1000000 \<Longrightarrow> spin_stored ext v = v"
  by (simp add: spin_stored_def)

lemma gui_with_values_sync:
  "colormap_range (colormap_panel (gui_with_values lv)) =
     (vmin_spin (colormap_panel (gui_with_values lv)), vmax_spin (colormap_panel (gui_with_values lv)))"
  by (simp add: gui_with_values_def new_gui_def colormap_range_def)

lemma gui_with_values_table:
  "label_values (colormap_panel (gui_with_values lv)) = lv"
  "\<not> use_colormap (colormap_panel (gui_with_values lv))"
  by (simp_all add: gui_with_values_def new_gui_def)

lemma sample_spin_stored:
  "spin_stored sample_ext (17 / 100) = 17 / 100"
  "spin_stored sample_ext (83 / 100) = 83 / 100"
  "spin_stored sample_ext (9999999 / 10) = 9999999 / 10"
  "spin_stored sample_ext (10000001 / 10) = 1000000"
  "spin_stored sample_ext (24 / 5) = 24 / 5"
  by (simp_all add: spin_stored_def sample_ext_def)

lemma colormap_gui_table:
  "colormap_panel (colormap_gui\<lparr>colormap_panel := (colormap_panel colormap_gui)\<lparr>label_values := lv\<rparr>\<rparr>) =
     \<lparr>label_values = lv, use_colormap = True, current_colormap = ''viridis'',
      colormap_vmin = None, colormap_vmax = None, vmin_spin = 0, vmax_spin = 1,
      value_file_edit = ''''\<rparr>"
  by (simp add: colormap_gui_fields new_gui_panels)

text \<open>
  C3 (amended). For a non-empty table, \<^verbatim>\<open>auto_range\<close> asks the two range spin boxes for
  min - margin and max + margin, with margin 5 percent of max - min, or 0.1 when all values
  are equal. Provided that, in colormap mode, the lower bound as stored is neither above
  the upper bound shown before nor above the upper bound as stored, it returns and the
  range of the colormap becomes these bounds as the spin boxes store them, rounded to their
  three decimals and bounded by their range from -1e6 to 1e6. The range is then exactly
  min - margin and max + margin when the rounding leaves both bounds as they are and both
  are within the range of the spin boxes. For an empty table nothing changes.
\<close>

theorem auto_range_stored_range:
  assumes "colormap_range (colormap_panel g) =
             (vmin_spin (colormap_panel g), vmax_spin (colormap_panel g))"
    and "map snd (label_values (colormap_panel g)) = vals" and "vals \<noteq> []"
    and "lo = Min (set vals)" and "hi = Max (set vals)"
    and "margin = (if lo < hi then (hi - lo) * 0.05 else 0.1)"
    and "use_colormap (colormap_panel g) \<longrightarrow>
           spin_stored ext (lo - margin) \<le> vmax_spin (colormap_panel g)
         \<and> spin_stored ext (lo - margin) \<le> spin_stored ext (hi + margin)"
  shows "auto_range ext g = Done (state_of (auto_range ext g))
    \<and> colormap_range (colormap_panel (state_of (auto_range ext g))) =
           (spin_stored ext (lo - margin), spin_stored ext (hi + margin))
    \<and> spin_stored ext (lo - margin) = max (- 1000000) (min 1000000 (spin_round ext (lo - margin)))
    \<and> spin_stored ext (hi + margin) = max (- 1000000) (min 1000000 (spin_round ext (hi + margin)))
    \<and> (spin_round ext (lo - margin) = lo - margin \<and> spin_round ext (hi + margin) = hi + margin
        \<and> - 1000000 \<le> lo - margin \<and> hi + margin \<le> 1000000 \<longrightarrow>
        colormap_range (colormap_panel (state_of (auto_range ext g))) = (lo - margin, hi + margin))
    \<and> (label_values (colormap_panel g0) = [] \<longrightarrow> auto_range ext g0 = Done g0)"
proof -
  note r = auto_range_nonempty [OF assms]
  have lohi: "lo \<le> hi"
    using assms(3,4,5) by (simp add: Min_le_iff)
  have m: "0 < margin"
    using assms(6) lohi by simp
  have exact: "colormap_range (colormap_panel (state_of (auto_range ext g))) = (lo - margin, hi + margin)"
    if "spin_round ext (lo - margin) = lo - margin" "spin_round ext (hi + margin) = hi + margin"
      "- 1000000 \<le> lo - margin" "hi + margin \<le> 1000000"
  proof -
    have "spin_stored ext (lo - margin) = lo - margin"
      using that lohi m by (intro spin_stored_exact) simp_all
    moreover have "spin_stored ext (hi + margin) = hi + margin"
      using that lohi m by (intro spin_stored_exact) simp_all
    ultimately show ?thesis using r(2) by simp
  qed
  from r exact auto_range_empty [of g0 ext] show ?thesis
    by (simp add: spin_stored_def)
qed

theorem auto_range_stored_range_witness:
  "use_colormap (colormap_panel
     (colormap_gui\<lparr>colormap_panel := (colormap_panel colormap_gui)\<lparr>label_values := [(1, 0.2), (2, 0.8)]\<rparr>\<rparr>))
   \<and> map snd (label_values (colormap_panel
       (colormap_gui\<lparr>colormap_panel := (colormap_panel colormap_gui)\<lparr>label_values := [(1, 0.2), (2, 0.8)]\<rparr>\<rparr>)))
       = [0.2, 0.8]
   \<and> (0.2::real) = Min (set [0.2, 0.8]) \<and> (0.8::real) = Max (set [0.2, 0.8])
   \<and> spin_stored sample_ext (0.2 - 0.03) \<le> vmax_spin (colormap_panel
       (colormap_gui\<lparr>colormap_panel := (colormap_panel colormap_gui)\<lparr>label_values := [(1, 0.2), (2, 0.8)]\<rparr>\<rparr>))
   \<and> spin_stored sample_ext (0.2 - 0.03) \<le> spin_stored sample_ext (0.8 + 0.03)
   \<and> spin_round sample_ext (0.2 - 0.03) = 0.2 - 0.03
   \<and> spin_round sample_ext (0.8 + 0.03) = 0.8 + 0.03
   \<and> auto_range sample_ext
       (colormap_gui\<lparr>colormap_panel := (colormap_panel colormap_gui)\<lparr>label_values := [(1, 0.2), (2, 0.8)]\<rparr>\<rparr>)
       = Done (state_of (auto_range sample_ext
       (colormap_gui\<lparr>colormap_panel := (colormap_panel colormap_gui)\<lparr>label_values := [(1, 0.2), (2, 0.8)]\<rparr>\<rparr>)))
   \<and> colormap_range (colormap_panel (state_of (auto_range sample_ext
       (colormap_gui\<lparr>colormap_panel := (colormap_panel colormap_gui)\<lparr>label_values := [(1, 0.2), (2, 0.8)]\<rparr>\<rparr>))))
       = (0.17, 0.83)
   \<and> label_values (colormap_panel new_gui) = []
   \<and> auto_range sample_ext new_gui = Done new_gui"
proof -
  let ?g = "colormap_gui\<lparr>colormap_panel := (colormap_panel colormap_gui)\<lparr>label_values := [(1, 0.2), (2, 0.8)]\<rparr>\<rparr>"
  note p = colormap_gui_table [of "[(1, 0.2), (2, 0.8)]"]
  have u: "use_colormap (colormap_panel ?g)"
    by (simp only: p) simp
  have a1: "colormap_range (colormap_panel ?g) =
      (vmin_spin (colormap_panel ?g), vmax_spin (colormap_panel ?g))"
    by (simp only: p) (simp add: colormap_range_def)
  have a2: "map snd (label_values (colormap_panel ?g)) = [0.2, 0.8]"
    by (simp only: p) simp
  have a3: "[0.2, 0.8] \<noteq> ([]::real list)" by simp
  have a4: "(0.2::real) = Min (set [0.2, 0.8])" by simp
  have a5: "(0.8::real) = Max (set [0.2, 0.8])" by simp
  have a6: "(0.03::real) = (if (0.2::real) < 0.8 then (0.8 - 0.2) * 0.05 else 0.1)" by simp
  have s1: "spin_stored sample_ext (0.2 - 0.03) \<le> vmax_spin (colormap_panel ?g)"
    by (simp only: p) (simp add: sample_spin_stored)
  have s2: "spin_stored sample_ext (0.2 - 0.03) \<le> spin_stored sample_ext (0.8 + 0.03)"
    by (simp add: sample_spin_stored)
  have a7: "use_colormap (colormap_panel ?g) \<longrightarrow>
      spin_stored sample_ext (0.2 - 0.03) \<le> vmax_spin (colormap_panel ?g)
      \<and> spin_stored sample_ext (0.2 - 0.03) \<le> spin_stored sample_ext (0.8 + 0.03)"
    using s1 s2 by blast
  have r1: "spin_round sample_ext (0.2 - 0.03) = 0.2 - 0.03"
    and r2: "spin_round sample_ext (0.8 + 0.03) = 0.8 + 0.03"
    by (simp_all add: sample_ext_def)
  have e: "label_values (colormap_panel new_gui) = []"
    by (simp add: new_gui_def)
  note T = auto_range_stored_range [OF a1 a2 a3 a4 a5 a6 a7, of new_gui]
  from T have d: "auto_range sample_ext ?g = Done (state_of (auto_range sample_ext ?g))"
    by blast
  from T r1 r2 have "colormap_range (colormap_panel (state_of (auto_range sample_ext ?g))) =
      (0.2 - 0.03, 0.8 + 0.03)"
    by simp
  then have c: "colormap_range (colormap_panel (state_of (auto_range sample_ext ?g))) = (0.17, 0.83)"
    by simp
  from T e have n: "auto_range sample_ext new_gui = Done new_gui"
    by blast
  from u a2 a4 a5 s1 s2 r1 r2 d c e n show ?thesis by blast
qed

theorem auto_range_clamped_counterexample:
  "map snd (label_values (colormap_panel (gui_with_values [(1, 1000000)]))) = [1000000]
   \<and> auto_range sample_ext (gui_with_values [(1, 1000000)]) =
       Done (state_of (auto_range sample_ext (gui_with_values [(1, 1000000)])))
   \<and> colormap_range (colormap_panel (state_of (auto_range sample_ext (gui_with_values [(1, 1000000)])))) =
       (999999.9, 1000000)
   \<and> colormap_range (colormap_panel (state_of (auto_range sample_ext (gui_with_values [(1, 1000000)])))) \<noteq>
       (1000000 - 0.1, 1000000 + 0.1)"
proof -
  let ?g = "gui_with_values [(1, 1000000)]"
  have a2: "map snd (label_values (colormap_panel ?g)) = [1000000]"
    by (simp add: gui_with_values_table)
  have a3: "[1000000] \<noteq> ([]::real list)" by simp
  have a4: "(1000000::real) = Min (set [1000000])" by simp
  have a5: "(1000000::real) = Max (set [1000000])" by simp
  have a6: "(0.1::real) = (if (1000000::real) < 1000000 then (1000000 - 1000000) * 0.05 else 0.1)"
    by simp
  have a7: "use_colormap (colormap_panel ?g) \<longrightarrow>
      spin_stored sample_ext (1000000 - 0.1) \<le> vmax_spin (colormap_panel ?g)
      \<and> spin_stored sample_ext (1000000 - 0.1) \<le> spin_stored sample_ext (1000000 + 0.1)"
    by (simp add: gui_with_values_table)
  note r = auto_range_nonempty [OF gui_with_values_sync a2 a3 a4 a5 a6 a7]
  have c: "colormap_range (colormap_panel (state_of (auto_range sample_ext ?g))) = (999999.9, 1000000)"
    using r(2) sample_spin_stored by simp
  then have "colormap_range (colormap_panel (state_of (auto_range sample_ext ?g))) \<noteq>
       (1000000 - 0.1, 1000000 + 0.1)"
    by simp
  with a2 r(1) c show ?thesis by blast
qed

text \<open>
  In colormap mode, with the labels 1 and 2 listed, the range spin boxes at 0 and 1 and the
  table {1: 5, 2: 9}, the lower bound 4.8 is stored above the upper bound 1: the colour
  computation raises in the slot of the first spin box and \<^verbatim>\<open>auto_range\<close> does not return.
\<close>

lemma auto_range_inverted_aborts:
  "\<exists>s. auto_range sample_ext
     (colormap_gui\<lparr>colormap_panel := (colormap_panel colormap_gui)\<lparr>label_values := [(1, 5), (2, 9)]\<rparr>\<rparr>)
     = Aborted s"
proof -
  let ?g = "colormap_gui\<lparr>colormap_panel := (colormap_panel colormap_gui)\<lparr>label_values := [(1, 5), (2, 9)]\<rparr>\<rparr>"
  note p = colormap_gui_table [of "[(1, 5), (2, 9)]"]
  have l: "label_list ?g = label_list loaded_gui"
    by (simp add: colormap_gui_fields)
  have a: "auto_range sample_ext ?g =
      and_then (vmin_spin_setValue sample_ext (5 - 0.2) ?g) (vmax_spin_setValue sample_ext (9 + 0.2))"
    by (rule auto_range_unfold [where vals = "[5, 9]"]) (simp_all only: p, simp_all)
  have "\<exists>s. vmin_spin_setValue sample_ext (5 - 0.2) ?g = Aborted s"
    by (simp add: vmin_spin_setValue_def Let_def p sample_spin_stored on_range_changed_def
        on_colormap_changed_def update_colors_from_colormap_def compute_colors_def
        loaded_gui_label_list colormap_gui_fields new_gui_panels get_color_for_value_def normalize_def)
  then show ?thesis
    unfolding a by auto
qed

section \<open>Properties of the loading of a table of values\<close>

lemma update_not_Nil: "AList.update k v al \<noteq> []"
  by (cases al) auto

lemma rows_loop_map_of:
  "map_of (rows_loop ext lc vc rows lv) = map_of lv ++ map_of (rev (row_entries ext lc vc rows))"
proof (induction rows arbitrary: lv)
  case Nil
  then show ?case by (simp add: row_entries_def)
next
  case (Cons row rows)
  show ?case
  proof (cases "if length row < 2 then None else parse_row ext lc vc row")
    case None
    then show ?thesis
      using Cons.IH [of lv]
      by (auto simp: row_entries_def split: if_splits)
  next
    case (Some e)
    obtain lbl val where e: "e = (lbl, val)" by (cases e)
    have "map_of (rows_loop ext lc vc (row # rows) lv) =
        map_of (AList.update lbl val lv) ++ map_of (rev (row_entries ext lc vc rows))"
      using Some e Cons.IH [of "AList.update lbl val lv"] by (auto split: if_splits)
    also have "\<dots> = map_of lv ++ map_of (rev (row_entries ext lc vc (row # rows)))"
      using Some e
      by (auto simp: row_entries_def update_conv' map_add_def fun_eq_iff
          split: if_splits option.splits)
    finally show ?thesis .
  qed
qed

lemma rows_loop_Nil_iff:
  "rows_loop ext lc vc rows lv = [] \<longleftrightarrow> lv = [] \<and> row_entries ext lc vc rows = []"
proof (induction rows arbitrary: lv)
  case Nil
  then show ?case by (simp add: row_entries_def)
next
  case (Cons row rows)
  show ?case
    using Cons.IH
    by (auto simp: row_entries_def update_not_Nil split: option.splits)
qed

lemma read_values_map_of:
  "map_of (read_values ext rows) = map_of (rev (parsed_entries ext rows))"
  by (auto simp: read_values_def parsed_entries_def rows_loop_map_of Let_def fun_eq_iff map_add_def
      split: list.splits option.splits prod.splits)

lemma read_values_Nil_iff:
  "read_values ext rows = [] \<longleftrightarrow> parsed_entries ext rows = []"
  by (auto simp: read_values_def parsed_entries_def rows_loop_Nil_iff Let_def
      split: list.splits option.splits prod.splits)

lemma load_values_missing:
  "\<not> path_exists ext (value_file_edit (colormap_panel g)) \<Longrightarrow> load_values ext g = Done g"
  by (simp add: load_values_def)

lemma load_values_table:
  assumes "path_exists ext (value_file_edit (colormap_panel g))"
    and "csv_rows ext (value_file_edit (colormap_panel g)) = (rows, failed)"
  shows "label_values (colormap_panel (state_of (load_values ext g))) = read_values ext rows"
proof -
  have "label_values (colormap_panel (state_of (and_then r (on_values_loaded ext)))) =
      label_values (colormap_panel (state_of r))" for r
    by (rule and_then_state) (simp add: on_values_loaded_panel)
  then show ?thesis
    using assms by (simp add: load_values_def Let_def state_of_caught auto_range_label_values)
qed

lemma load_values_no_entries:
  assumes "path_exists ext (value_file_edit (colormap_panel g))"
    and "csv_rows ext (value_file_edit (colormap_panel g)) = (rows, failed)"
    and "parsed_entries ext rows = []"
  shows "load_values ext g = Done (g\<lparr>colormap_panel := (colormap_panel g)\<lparr>label_values := []\<rparr>\<rparr>)"
  using assms read_values_Nil_iff [of ext rows]
  by (simp add: load_values_def Let_def)

lemma gui_with_file_path:
  "value_file_edit (colormap_panel (gui_with_file path lv)) = path"
  "label_values (colormap_panel (gui_with_file path lv)) = lv"
  by (simp_all add: gui_with_file_def)

lemma sample_files:
  "path_exists sample_ext ''notes.csv''"
  "path_exists sample_ext ''first.csv''"
  "\<not> path_exists sample_ext ''nowhere.csv''"
  "csv_rows sample_ext ''notes.csv'' = ([[''region'', ''comment''], [''1'', ''n/a''], [''left'']], False)"
  "csv_rows sample_ext ''first.csv'' = ([[''1'', ''0.2''], [''2'', ''0.8''], [''1'', ''0.5'']], False)"
  by (simp_all add: sample_ext_def)

lemma sample_notes_entries:
  "parsed_entries sample_ext [[''region'', ''comment''], [''1'', ''n/a''], [''left'']] = []"
  by (simp add: parsed_entries_def row_entries_def detect_columns_def parse_row_def lower_def
      lower_char_def strip_def is_space_def LABEL_ALIASES_def VALUE_ALIASES_def sample_ext_def)

lemma sample_first_values:
  "read_values sample_ext [[''1'', ''0.2''], [''2'', ''0.8''], [''1'', ''0.5'']] = [(1, 0.5), (2, 0.8)]"
  by (simp add: read_values_def detect_columns_def parse_row_def lower_def
      lower_char_def strip_def is_space_def LABEL_ALIASES_def VALUE_ALIASES_def sample_ext_def)

lemma sample_detect:
  "detect_columns [''1'', ''0.2''] = (0, 1)"
  "detect_columns [''comment'', '' Score'', ''ROI ''] = (2, 1)"
  by (simp_all add: detect_columns_def lower_def
      lower_char_def strip_def is_space_def LABEL_ALIASES_def VALUE_ALIASES_def)

lemma map_of_rev_last:
  assumes "es = es1 @ (k, v) # es2" and "k \<notin> fst ` set es2"
  shows "map_of (rev es) k = Some v"
proof -
  have "map_of (rev es2) k = None"
    using assms(2) by (simp add: map_of_eq_None_iff)
  then show ?thesis
    using assms(1) by (simp add: map_add_def)
qed

text \<open>
  C9 (amended). When the file exists and none of its rows is a valid (label, value) pair,
  the load returns, raises no error, sends no notification and leaves the range, the mode,
  the label list, the colours, the timer, the scene and the status as they were, but it
  empties the table of the panel: a table loaded before is discarded. When the path does
  not exist, the load returns and changes nothing.
\<close>

theorem load_values_no_valid_rows:
  assumes "path_exists ext (value_file_edit (colormap_panel g))"
    and "csv_rows ext (value_file_edit (colormap_panel g)) = (rows, failed)"
    and "parsed_entries ext rows = []"
  shows "load_values ext g = Done (g\<lparr>colormap_panel := (colormap_panel g)\<lparr>label_values := []\<rparr>\<rparr>)
    \<and> label_values (colormap_panel (state_of (load_values ext g))) = []
    \<and> colormap_range (colormap_panel (state_of (load_values ext g))) = colormap_range (colormap_panel g)
    \<and> use_colormap (colormap_panel (state_of (load_values ext g))) = use_colormap (colormap_panel g)
    \<and> label_list (state_of (load_values ext g)) = label_list g
    \<and> render_timer (state_of (load_values ext g)) = render_timer g
    \<and> plotter (state_of (load_values ext g)) = plotter g
    \<and> status_lbl (state_of (load_values ext g)) = status_lbl g
    \<and> volume (state_of (load_values ext g)) = volume g
    \<and> (\<not> path_exists ext (value_file_edit (colormap_panel g0)) \<longrightarrow> load_values ext g0 = Done g0)"
proof -
  have "load_values ext g = Done (g\<lparr>colormap_panel := (colormap_panel g)\<lparr>label_values := []\<rparr>\<rparr>)"
    using assms by (rule load_values_no_entries)
  then show ?thesis
    by (simp add: load_values_missing colormap_range_def)
qed

theorem load_values_no_valid_rows_witness:
  "path_exists sample_ext (value_file_edit (colormap_panel (gui_with_file ''notes.csv'' [(1, 0.2)])))
   \<and> csv_rows sample_ext (value_file_edit (colormap_panel (gui_with_file ''notes.csv'' [(1, 0.2)]))) =
       ([[''region'', ''comment''], [''1'', ''n/a''], [''left'']], False)
   \<and> parsed_entries sample_ext [[''region'', ''comment''], [''1'', ''n/a''], [''left'']] = []
   \<and> load_values sample_ext (gui_with_file ''notes.csv'' [(1, 0.2)]) = Done (gui_with_file ''notes.csv'' [])
   \<and> \<not> path_exists sample_ext (value_file_edit (colormap_panel (gui_with_file ''nowhere.csv'' [(1, 0.2)])))
   \<and> load_values sample_ext (gui_with_file ''nowhere.csv'' [(1, 0.2)]) =
       Done (gui_with_file ''nowhere.csv'' [(1, 0.2)])"
proof -
  let ?g = "gui_with_file ''notes.csv'' [(1, 0.2)]"
  let ?h = "gui_with_file ''nowhere.csv'' [(1, 0.2)]"
  have p: "path_exists sample_ext (value_file_edit (colormap_panel ?g))"
    by (simp add: gui_with_file_path sample_files)
  have c: "csv_rows sample_ext (value_file_edit (colormap_panel ?g)) =
       ([[''region'', ''comment''], [''1'', ''n/a''], [''left'']], False)"
    by (simp add: gui_with_file_path sample_files)
  have n: "\<not> path_exists sample_ext (value_file_edit (colormap_panel ?h))"
    by (simp add: gui_with_file_path sample_files)
  have u: "?g\<lparr>colormap_panel := (colormap_panel ?g)\<lparr>label_values := []\<rparr>\<rparr> = gui_with_file ''notes.csv'' []"
    by (simp add: gui_with_file_def)
  note T = load_values_no_valid_rows [OF p c sample_notes_entries, of ?h]
  from T u have a: "load_values sample_ext ?g = Done (gui_with_file ''notes.csv'' [])"
    by simp
  from T n have b: "load_values sample_ext ?h = Done ?h"
    by blast
  from p c sample_notes_entries a n b show ?thesis by blast
qed

theorem load_values_discards_table_counterexample:
  "label_values (colormap_panel (gui_with_file ''notes.csv'' [(1, 0.2)])) = [(1, 0.2)]
   \<and> parsed_entries sample_ext (fst (csv_rows sample_ext ''notes.csv'')) = []
   \<and> label_values (colormap_panel (state_of (load_values sample_ext (gui_with_file ''notes.csv'' [(1, 0.2)])))) = []
   \<and> state_of (load_values sample_ext (gui_with_file ''notes.csv'' [(1, 0.2)])) \<noteq>
       gui_with_file ''notes.csv'' [(1, 0.2)]"
proof -
  let ?g = "gui_with_file ''notes.csv'' [(1, 0.2)]"
  have p: "path_exists sample_ext (value_file_edit (colormap_panel ?g))"
    by (simp add: gui_with_file_path sample_files)
  have c: "csv_rows sample_ext (value_file_edit (colormap_panel ?g)) =
       ([[''region'', ''comment''], [''1'', ''n/a''], [''left'']], False)"
    by (simp add: gui_with_file_path sample_files)
  have r: "fst (csv_rows sample_ext ''notes.csv'') = [[''region'', ''comment''], [''1'', ''n/a''], [''left'']]"
    by (simp add: sample_files)
  have t: "label_values (colormap_panel ?g) = [(1, 0.2)]"
    by (simp add: gui_with_file_path)
  have e: "label_values (colormap_panel (state_of (load_values sample_ext ?g))) = []"
    using load_values_no_entries [OF p c sample_notes_entries] by simp
  have d: "state_of (load_values sample_ext ?g) \<noteq> ?g"
  proof
    assume "state_of (load_values sample_ext ?g) = ?g"
    with e t show False by simp
  qed
  from t r sample_notes_entries e d show ?thesis by simp
qed

text \<open>
  C10. The table after a load maps every label to the value of the last valid row that
  carries it. The first row of the file is one of these rows whenever both of its detected
  columns parse as floats, whether or not a header alias was recognised in it: its label
  is then in the table, with its own value unless a later valid row has the same label.
  The table is complete before the range is adapted and the main window is told, so this
  holds in whichever way the load ends.
\<close>

theorem first_row_stored_last_row_wins:
  assumes "path_exists ext (value_file_edit (colormap_panel g))"
    and "csv_rows ext (value_file_edit (colormap_panel g)) = (rows, failed)"
  shows "map_of (label_values (colormap_panel (state_of (load_values ext g)))) =
           map_of (rev (parsed_entries ext rows))
    \<and> (parsed_entries ext rows = es1 @ (k, v) # es2 \<and> k \<notin> fst ` set es2 \<longrightarrow>
         map_of (label_values (colormap_panel (state_of (load_values ext g)))) k = Some v)
    \<and> (rows = header # rest \<and> detect_columns header = (lc, vc)
          \<and> parse_row ext lc vc header = Some (lbl, val) \<longrightarrow>
         parsed_entries ext rows = (lbl, val) # row_entries ext lc vc rest
       \<and> lbl \<in> fst ` set (label_values (colormap_panel (state_of (load_values ext g))))
       \<and> (lbl \<notin> fst ` set (row_entries ext lc vc rest) \<longrightarrow>
            map_of (label_values (colormap_panel (state_of (load_values ext g)))) lbl = Some val))"
proof -
  let ?T = "label_values (colormap_panel (state_of (load_values ext g)))"
  have T: "?T = read_values ext rows"
    using assms by (rule load_values_table)
  have m: "map_of ?T = map_of (rev (parsed_entries ext rows))"
    by (simp add: T read_values_map_of)
  have last: "map_of ?T k = Some v"
    if "parsed_entries ext rows = es1 @ (k, v) # es2" "k \<notin> fst ` set es2"
    using map_of_rev_last [OF that] m by simp
  have first: "parsed_entries ext rows = (lbl, val) # row_entries ext lc vc rest
       \<and> lbl \<in> fst ` set ?T
       \<and> (lbl \<notin> fst ` set (row_entries ext lc vc rest) \<longrightarrow> map_of ?T lbl = Some val)"
    if h: "rows = header # rest" "detect_columns header = (lc, vc)"
      "parse_row ext lc vc header = Some (lbl, val)"
  proof -
    have ne: "header \<noteq> []"
      using h(3) by (auto simp: parse_row_def split: if_splits)
    have pe: "parsed_entries ext rows = (lbl, val) # row_entries ext lc vc rest"
      using h ne by (simp add: parsed_entries_def)
    have "lbl \<in> fst ` set (parsed_entries ext rows)"
      by (simp add: pe)
    then have "map_of (rev (parsed_entries ext rows)) lbl \<noteq> None"
      by (simp add: map_of_eq_None_iff)
    then have inT: "lbl \<in> fst ` set ?T"
      using m by (metis map_of_eq_None_iff)
    have own: "map_of ?T lbl = Some val" if "lbl \<notin> fst ` set (row_entries ext lc vc rest)"
      using map_of_rev_last [of "parsed_entries ext rows" "[]" lbl val "row_entries ext lc vc rest"]
        pe that m by simp
    from pe inT own show ?thesis by blast
  qed
  from m last first show ?thesis by blast
qed

theorem first_row_stored_last_row_wins_witness:
  "path_exists sample_ext (value_file_edit (colormap_panel (gui_with_file ''first.csv'' [])))
   \<and> csv_rows sample_ext (value_file_edit (colormap_panel (gui_with_file ''first.csv'' []))) =
       ([[''1'', ''0.2''], [''2'', ''0.8''], [''1'', ''0.5'']], False)
   \<and> detect_columns [''1'', ''0.2''] = (0, 1)
   \<and> parse_row sample_ext 0 1 [''1'', ''0.2''] = Some (1, 0.2)
   \<and> parsed_entries sample_ext [[''1'', ''0.2''], [''2'', ''0.8''], [''1'', ''0.5'']] =
       [(1, 0.2), (2, 0.8), (1, 0.5)]
   \<and> label_values (colormap_panel (state_of (load_values sample_ext (gui_with_file ''first.csv'' [])))) =
       [(1, 0.5), (2, 0.8)]
   \<and> 1 \<in> fst ` set (label_values (colormap_panel (state_of (load_values sample_ext (gui_with_file ''first.csv'' [])))))
   \<and> map_of (label_values (colormap_panel (state_of (load_values sample_ext (gui_with_file ''first.csv'' []))))) 1 =
       Some 0.5"
proof -
  let ?g = "gui_with_file ''first.csv'' []"
  let ?rows = "[[''1'', ''0.2''], [''2'', ''0.8''], [''1'', ''0.5'']]"
  have p: "path_exists sample_ext (value_file_edit (colormap_panel ?g))"
    by (simp add: gui_with_file_path sample_files)
  have c: "csv_rows sample_ext (value_file_edit (colormap_panel ?g)) = (?rows, False)"
    by (simp add: gui_with_file_path sample_files)
  have d: "detect_columns [''1'', ''0.2''] = (0, 1)"
    by (rule sample_detect)
  have h: "parse_row sample_ext 0 1 [''1'', ''0.2''] = Some (1, 0.2)"
    by (simp add: parse_row_def sample_ext_def)
  have re: "row_entries sample_ext 0 1 [[''2'', ''0.8''], [''1'', ''0.5'']] = [(2, 0.8), (1, 0.5)]"
    by (simp add: row_entries_def parse_row_def sample_ext_def)
  have t: "label_values (colormap_panel (state_of (load_values sample_ext ?g))) = [(1, 0.5), (2, 0.8)]"
    using load_values_table [OF p c] sample_first_values by simp
  note T = first_row_stored_last_row_wins [OF p c, of "[(1, 0.2), (2, 0.8)]" 1 "0.5" "[]"
      "[''1'', ''0.2'']" "[[''2'', ''0.8''], [''1'', ''0.5'']]" 0 1 1 "0.2"]
  from T d h re have pe: "parsed_entries sample_ext ?rows = [(1, 0.2), (2, 0.8), (1, 0.5)]"
    by simp
  from T d h have i: "1 \<in> fst ` set (label_values (colormap_panel (state_of (load_values sample_ext ?g))))"
    by simp
  from T pe have w: "map_of (label_values (colormap_panel (state_of (load_values sample_ext ?g)))) 1 = Some 0.5"
    by simp
  from p c d h pe t i w show ?thesis by blast
qed


section \<open>Properties of the colours in colormap mode\<close>

lemma update_keys_subset: "fst ` set (AList.update k v al) \<subseteq> insert k (fst ` set al)"
  by (induction al) auto

lemma compute_colors_loop_map_of:
  assumes "compute_colors_loop ext cp labels colors = Inr cs"
  shows "map_of cs k =
     (if k \<in> set labels then
        (case map_of (label_values cp) k of
           Some v \<Rightarrow> (case get_color_for_value ext cp v of Inr c \<Rightarrow> Some c | Inl exc \<Rightarrow> None)
         | None \<Rightarrow> map_of colors k)
      else map_of colors k)"
  using assms
proof (induction labels arbitrary: colors)
  case Nil
  then show ?case by simp
next
  case (Cons lbl labels)
  show ?case
  proof (cases "map_of (label_values cp) lbl")
    case None
    with Cons.prems have "compute_colors_loop ext cp labels colors = Inr cs"
      by simp
    from Cons.IH [OF this] None show ?thesis
      by (auto split: option.splits)
  next
    case (Some v)
    show ?thesis
    proof (cases "get_color_for_value ext cp v")
      case (Inl exc)
      with Some Cons.prems show ?thesis by simp
    next
      case (Inr c)
      with Some Cons.prems
      have "compute_colors_loop ext cp labels (AList.update lbl c colors) = Inr cs"
        by simp
      from Cons.IH [OF this] Some Inr show ?thesis
        by (auto simp: update_conv' split: option.splits)
    qed
  qed
qed

lemma compute_colors_loop_keys:
  assumes "compute_colors_loop ext cp labels colors = Inr cs"
  shows "fst ` set cs \<subseteq> fst ` set colors \<union> set labels"
  using assms
proof (induction labels arbitrary: colors)
  case Nil
  then show ?case by simp
next
  case (Cons lbl labels)
  show ?case
  proof (cases "map_of (label_values cp) lbl")
    case None
    with Cons.prems have "compute_colors_loop ext cp labels colors = Inr cs"
      by simp
    from Cons.IH [OF this] show ?thesis by auto
  next
    case (Some v)
    show ?thesis
    proof (cases "get_color_for_value ext cp v")
      case (Inl exc)
      with Some Cons.prems show ?thesis by simp
    next
      case (Inr c)
      with Some Cons.prems
      have "compute_colors_loop ext cp labels (AList.update lbl c colors) = Inr cs"
        by simp
      from Cons.IH [OF this]
      have "fst ` set cs \<subseteq> fst ` set (AList.update lbl c colors) \<union> set labels" .
      also have "\<dots> \<subseteq> insert lbl (fst ` set colors) \<union> set labels"
        using update_keys_subset [of lbl c colors] by blast
      finally show ?thesis by auto
    qed
  qed
qed

lemma compute_colors_loop_distinct:
  "compute_colors_loop ext cp labels colors = Inr cs \<Longrightarrow> distinct (map fst colors) \<Longrightarrow>
     distinct (map fst cs)"
  by (induction labels arbitrary: colors) (auto simp: distinct_update split: option.splits sum.splits)

lemma map_of_rev_distinct:
  "distinct (map fst al) \<Longrightarrow> map_of (rev al) = map_of al"
proof (induction al)
  case Nil
  then show ?case by simp
next
  case (Cons a al)
  obtain k v where a: "a = (k, v)" by (cases a)
  have none: "map_of al k = None"
    using Cons.prems a by (simp add: map_of_eq_None_iff)
  have ih: "map_of (rev al) = map_of al"
    using Cons by simp
  show ?case
    using none by (auto simp: a ih map_add_def fun_eq_iff split: option.splits)
qed

lemma dict_update_map_of:
  "map_of (dict_update d other) = map_of d ++ map_of (rev other)"
  unfolding dict_update_def
proof (induction other arbitrary: d)
  case Nil
  then show ?case by simp
next
  case (Cons e other)
  obtain k v where e: "e = (k, v)" by (cases e)
  show ?case
    by (simp add: e Cons.IH update_conv' map_add_def fun_eq_iff split: option.splits)
qed

lemma dict_update_keys:
  "fst ` set other \<subseteq> fst ` set d \<Longrightarrow> map fst (dict_update d other) = map fst d"
  unfolding dict_update_def
proof (induction other arbitrary: d)
  case Nil
  then show ?case by simp
next
  case (Cons e other)
  obtain k v where e: "e = (k, v)" by (cases e)
  have k: "k \<in> set (map fst d)"
    using Cons.prems e by auto
  have keys: "map fst (AList.update k v d) = map fst d"
    using k by (simp add: update_keys)
  have "fst ` set other \<subseteq> fst ` set (AList.update k v d)"
    using Cons.prems keys by (metis set_map insert_subset list.simps(15) image_insert)
  from Cons.IH [OF this] keys show ?case
    by (simp add: e)
qed

lemma update_colors_other_fields:
  "volume (state_of (update_colors_from_colormap ext g)) = volume g"
  "spacing (state_of (update_colors_from_colormap ext g)) = spacing g"
  "origin (state_of (update_colors_from_colormap ext g)) = origin g"
  "render_params (state_of (update_colors_from_colormap ext g)) = render_params g"
  "plotter (state_of (update_colors_from_colormap ext g)) = plotter g"
  "list_items (label_list (state_of (update_colors_from_colormap ext g))) = list_items (label_list g)"
  by (simp_all add: update_colors_from_colormap_def Let_def set_label_colors_def split: sum.splits)

lemma update_colors_colormap_mode:
  assumes mode: "use_colormap (colormap_panel g)"
    and ordered: "fst (colormap_range (colormap_panel g)) \<le> snd (colormap_range (colormap_panel g))"
  shows "update_colors_from_colormap ext g = Done (state_of (update_colors_from_colormap ext g))"
    and "map fst (label_colors (label_list (state_of (update_colors_from_colormap ext g)))) =
           map fst (label_colors (label_list g))"
    and "map_of (label_colors (label_list (state_of (update_colors_from_colormap ext g)))) lbl =
           (case map_of (label_values (colormap_panel g)) lbl of
              Some v \<Rightarrow>
                (if lbl \<in> fst ` set (label_colors (label_list g))
                 then Some (cmap_hex ext (current_colormap (colormap_panel g))
                   (if fst (colormap_range (colormap_panel g)) = snd (colormap_range (colormap_panel g))
                    then 0
                    else (v - fst (colormap_range (colormap_panel g)))
                         / (snd (colormap_range (colormap_panel g)) - fst (colormap_range (colormap_panel g)))))
                 else None)
            | None \<Rightarrow> map_of (label_colors (label_list g)) lbl)"
proof -
  let ?cp = "colormap_panel g"
  let ?old = "label_colors (label_list g)"
  obtain new where new: "compute_colors_loop ext ?cp (map fst ?old) [] = Inr new"
    using compute_colors_loop_ordered [OF ordered] by blast
  have u0: "update_colors_from_colormap ext g =
      Done (g\<lparr>label_list := set_label_colors new (label_list g)\<rparr>)"
    using mode new by (simp add: update_colors_from_colormap_def compute_colors_def Let_def)
  then show "update_colors_from_colormap ext g = Done (state_of (update_colors_from_colormap ext g))"
    by simp
  have u: "label_colors (label_list (state_of (update_colors_from_colormap ext g))) =
      dict_update ?old new"
    by (simp add: u0 set_label_colors_def)
  have keys: "fst ` set new \<subseteq> fst ` set ?old"
    using compute_colors_loop_keys [OF new] by simp
  have d: "distinct (map fst new)"
    using compute_colors_loop_distinct [OF new] by simp
  show "map fst (label_colors (label_list (state_of (update_colors_from_colormap ext g)))) = map fst ?old"
    unfolding u using keys by (rule dict_update_keys)
  have n: "map_of new lbl =
      (if lbl \<in> fst ` set ?old then
         (case map_of (label_values ?cp) lbl of
            Some v \<Rightarrow> Some (cmap_hex ext (current_colormap ?cp)
                   (if fst (colormap_range ?cp) = snd (colormap_range ?cp) then 0
                    else (v - fst (colormap_range ?cp)) / (snd (colormap_range ?cp) - fst (colormap_range ?cp))))
          | None \<Rightarrow> None)
       else None)"
    using compute_colors_loop_map_of [OF new, of lbl]
    by (simp add: get_color_for_value_ordered [OF ordered] split: option.splits)
  show "map_of (label_colors (label_list (state_of (update_colors_from_colormap ext g)))) lbl =
           (case map_of (label_values ?cp) lbl of
              Some v \<Rightarrow>
                (if lbl \<in> fst ` set ?old
                 then Some (cmap_hex ext (current_colormap ?cp)
                   (if fst (colormap_range ?cp) = snd (colormap_range ?cp) then 0
                    else (v - fst (colormap_range ?cp)) / (snd (colormap_range ?cp) - fst (colormap_range ?cp))))
                 else None)
            | None \<Rightarrow> map_of ?old lbl)"
  proof (cases "map_of (label_values ?cp) lbl")
    case None
    then show ?thesis
      unfolding u dict_update_map_of map_of_rev_distinct [OF d]
      by (simp add: n map_add_def)
  next
    case (Some v)
    show ?thesis
    proof (cases "lbl \<in> fst ` set ?old")
      case True
      then show ?thesis
        unfolding u dict_update_map_of map_of_rev_distinct [OF d]
        by (simp add: n Some map_add_def)
    next
      case False
      then have "map_of ?old lbl = None"
        by (simp add: map_of_eq_None_iff)
      with False show ?thesis
        unfolding u dict_update_map_of map_of_rev_distinct [OF d]
        by (simp add: n Some map_add_def)
    qed
  qed
qed

text \<open>The meshes and the colours of the actors of a scene.\<close>

lemma add_meshes_colors:
  "map (\<lambda>a. (actor_mesh a, color a)) (actors (add_meshes cols is_2d se idx lms p)) =
     map (\<lambda>a. (actor_mesh a, color a)) (actors p) @
     map (\<lambda>(i, l, m). (m, case map_of cols l of Some c \<Rightarrow> c | None \<Rightarrow> default_color i))
       (enumerate idx lms)"
proof (induction lms arbitrary: idx p)
  case Nil
  then show ?case by simp
next
  case (Cons x lms)
  obtain l m where x: "x = (l, m)" by (cases x)
  show ?case
    unfolding x add_meshes.simps Let_def Cons.IH
    by (simp add: add_mesh_def)
qed

lemma render_meshes_colors:
  "map (\<lambda>a. (actor_mesh a, color a)) (actors (render_meshes sb lms cols is_2d se view p)) =
     map (\<lambda>(i, l, m). (m, case map_of cols l of Some c \<Rightarrow> c | None \<Rightarrow> default_color i))
       (enumerate 0 lms)"
  by (simp add: render_meshes_actors add_meshes_colors clear_and_setup_lights_def)

lemma render_scene_plotter:
  assumes "volume g = Some vol" and "spacing g = Some sp" and "origin g = Some org"
    and "get_checked_labels (label_list g) \<noteq> []"
    and "extract_label_meshes (geometry ext) vol (get_checked_labels (label_list g)) sp org
           (sigma_spin (render_params g)) (smooth_spin (render_params g)) 0.1 0.5 = lms"
    and "lms \<noteq> []"
  shows "plotter (render_scene ext g) =
     render_meshes (scene_bounds ext) lms (label_colors (label_list g))
       (style_combo (render_params g) = ''2D flat'') (edges_chk (render_params g))
       (view_combo (render_params g)) (plotter g)"
  using assms by (simp add: render_scene_def Let_def)

lemma update_colors_checked_labels:
  "get_checked_labels (label_list (state_of (update_colors_from_colormap ext g))) =
     get_checked_labels (label_list g)"
  by (simp add: get_checked_labels_def update_colors_other_fields)

lemma colormap_gui_colors:
  "label_colors (label_list (state_of (update_colors_from_colormap sample_ext colormap_gui))) =
     [(1, ''#440154''), (2, ''#E45756'')]"
  by (simp add: update_colors_from_colormap_def colormap_gui_fields loaded_gui_label_list Let_def
      compute_colors_def set_label_colors_def dict_update_def get_color_for_value_def normalize_def
      sample_cmap_hex new_gui_panels)

lemma colormap_gui_checked:
  "get_checked_labels (label_list colormap_gui) = [1, 2]"
  by (simp add: get_checked_labels_def colormap_gui_fields loaded_gui_label_list)

lemma colormap_gui_rendered:
  "map color (actors (plotter (render_scene sample_ext
       (state_of (update_colors_from_colormap sample_ext colormap_gui))))) = [''#440154'', ''#E45756'']"
  by (simp add: render_scene_def Let_def update_colors_other_fields colormap_gui_more
      colormap_gui_colors update_colors_checked_labels colormap_gui_checked
      new_gui_panels sample_cmap_hex sample_extraction render_meshes_actors add_mesh_def
      clear_and_setup_lights_def)

text \<open>
  C4 (amended). In colormap mode, with the minimum of the range not above its maximum, the
  update returns, keeps the labels of the list and gives every label whose value is known
  the colormap colour of that value, normalised with the current range. A label without a
  known value keeps the colour it had before, which is its palette colour unless it was
  changed since the list was populated; no neutral colour is assigned. At render time every
  mesh of the scene, in the order of the scene, gets the colour that the list holds for its
  label, or the palette colour of its position when the list holds none.
\<close>

theorem colormap_mode_colors:
  assumes "use_colormap (colormap_panel g)"
    and "fst (colormap_range (colormap_panel g)) \<le> snd (colormap_range (colormap_panel g))"
    and "lbl \<in> fst ` set (label_colors (label_list g))"
    and "g' = state_of (update_colors_from_colormap ext g)"
  shows "update_colors_from_colormap ext g = Done g'
    \<and> map fst (label_colors (label_list g')) = map fst (label_colors (label_list g))
    \<and> (map_of (label_values (colormap_panel g)) lbl = Some v \<longrightarrow>
         map_of (label_colors (label_list g')) lbl =
           Some (cmap_hex ext (current_colormap (colormap_panel g))
             (if fst (colormap_range (colormap_panel g)) = snd (colormap_range (colormap_panel g))
              then 0
              else (v - fst (colormap_range (colormap_panel g)))
                   / (snd (colormap_range (colormap_panel g)) - fst (colormap_range (colormap_panel g))))))
    \<and> (map_of (label_values (colormap_panel g)) lbl = None \<longrightarrow>
         map_of (label_colors (label_list g')) lbl = map_of (label_colors (label_list g)) lbl)
    \<and> map (\<lambda>a. (actor_mesh a, color a))
          (actors (render_meshes sb lms (label_colors (label_list g')) is_2d se view p)) =
        map (\<lambda>(i, l, m). (m, case map_of (label_colors (label_list g')) l of
                                 Some c \<Rightarrow> c | None \<Rightarrow> default_color i))
          (enumerate 0 lms)
    \<and> (volume g = Some vol \<and> spacing g = Some sp \<and> origin g = Some org
        \<and> get_checked_labels (label_list g) \<noteq> []
        \<and> extract_label_meshes (geometry ext) vol (get_checked_labels (label_list g)) sp org
            (sigma_spin (render_params g)) (smooth_spin (render_params g)) 0.1 0.5 = scene
        \<and> scene \<noteq> [] \<longrightarrow>
         plotter (render_scene ext g') =
           render_meshes (scene_bounds ext) scene (label_colors (label_list g'))
             (style_combo (render_params g) = ''2D flat'') (edges_chk (render_params g))
             (view_combo (render_params g)) (plotter g)
       \<and> map (\<lambda>a. (actor_mesh a, color a)) (actors (plotter (render_scene ext g'))) =
           map (\<lambda>(i, l, m). (m, case map_of (label_colors (label_list g')) l of
                                    Some c \<Rightarrow> c | None \<Rightarrow> default_color i))
             (enumerate 0 scene))"
proof -
  note u = update_colors_colormap_mode [OF assms(1,2), of ext]
  have ret: "update_colors_from_colormap ext g = Done g'"
    using u(1) assms(4) by simp
  have keys: "map fst (label_colors (label_list g')) = map fst (label_colors (label_list g))"
    using u(2) assms(4) by simp
  have known: "map_of (label_colors (label_list g')) lbl =
           Some (cmap_hex ext (current_colormap (colormap_panel g))
             (if fst (colormap_range (colormap_panel g)) = snd (colormap_range (colormap_panel g))
              then 0
              else (v - fst (colormap_range (colormap_panel g)))
                   / (snd (colormap_range (colormap_panel g)) - fst (colormap_range (colormap_panel g)))))"
    if "map_of (label_values (colormap_panel g)) lbl = Some v"
    using u(3) [of lbl] that assms(3,4) by simp
  have unknown: "map_of (label_colors (label_list g')) lbl = map_of (label_colors (label_list g)) lbl"
    if "map_of (label_values (colormap_panel g)) lbl = None"
    using u(3) [of lbl] that assms(4) by simp
  note meshes = render_meshes_colors [of sb lms "label_colors (label_list g')" is_2d se view p]
  have scene: "plotter (render_scene ext g') =
           render_meshes (scene_bounds ext) scene (label_colors (label_list g'))
             (style_combo (render_params g) = ''2D flat'') (edges_chk (render_params g))
             (view_combo (render_params g)) (plotter g)
       \<and> map (\<lambda>a. (actor_mesh a, color a)) (actors (plotter (render_scene ext g'))) =
           map (\<lambda>(i, l, m). (m, case map_of (label_colors (label_list g')) l of
                                    Some c \<Rightarrow> c | None \<Rightarrow> default_color i))
             (enumerate 0 scene)"
    if h: "volume g = Some vol" "spacing g = Some sp" "origin g = Some org"
      "get_checked_labels (label_list g) \<noteq> []"
      "extract_label_meshes (geometry ext) vol (get_checked_labels (label_list g)) sp org
            (sigma_spin (render_params g)) (smooth_spin (render_params g)) 0.1 0.5 = scene"
      "scene \<noteq> []"
  proof -
    have "plotter (render_scene ext g') =
        render_meshes (scene_bounds ext) scene (label_colors (label_list g'))
          (style_combo (render_params g') = ''2D flat'') (edges_chk (render_params g'))
          (view_combo (render_params g')) (plotter g')"
      using h unfolding assms(4)
      by (intro render_scene_plotter)
        (simp_all add: update_colors_other_fields update_colors_checked_labels)
    then have r: "plotter (render_scene ext g') =
        render_meshes (scene_bounds ext) scene (label_colors (label_list g'))
          (style_combo (render_params g) = ''2D flat'') (edges_chk (render_params g))
          (view_combo (render_params g)) (plotter g)"
      by (simp add: assms(4) update_colors_other_fields)
    show ?thesis
      unfolding r by (simp add: render_meshes_colors)
  qed
  from ret keys known unknown meshes scene show ?thesis by blast
qed

theorem colormap_mode_colors_witness:
  "use_colormap (colormap_panel colormap_gui)
   \<and> fst (colormap_range (colormap_panel colormap_gui)) \<le> snd (colormap_range (colormap_panel colormap_gui))
   \<and> 1 \<in> fst ` set (label_colors (label_list colormap_gui))
   \<and> 2 \<in> fst ` set (label_colors (label_list colormap_gui))
   \<and> map_of (label_values (colormap_panel colormap_gui)) 1 = Some 0.2
   \<and> map_of (label_values (colormap_panel colormap_gui)) 2 = None
   \<and> map_of (label_colors (label_list colormap_gui)) 2 = Some ''#E45756''
   \<and> update_colors_from_colormap sample_ext colormap_gui =
       Done (state_of (update_colors_from_colormap sample_ext colormap_gui))
   \<and> map fst (label_colors (label_list (state_of (update_colors_from_colormap sample_ext colormap_gui)))) =
       [1, 2]
   \<and> map_of (label_colors (label_list (state_of (update_colors_from_colormap sample_ext colormap_gui)))) 1 =
       Some ''#440154''
   \<and> map_of (label_colors (label_list (state_of (update_colors_from_colormap sample_ext colormap_gui)))) 2 =
       Some ''#E45756''
   \<and> volume colormap_gui = Some sample_volume
   \<and> get_checked_labels (label_list colormap_gui) = [1, 2]
   \<and> map (\<lambda>a. (actor_mesh a, color a)) (actors (plotter (render_scene sample_ext
         (state_of (update_colors_from_colormap sample_ext colormap_gui))))) =
       [(\<lparr>points = [(0, 0, 0), (0, 0, 0)], faces = []\<rparr>, ''#440154''),
        (\<lparr>points = [(0, 0, 0)], faces = []\<rparr>, ''#E45756'')]"
proof -
  let ?g' = "state_of (update_colors_from_colormap sample_ext colormap_gui)"
  let ?scene = "[(1, \<lparr>points = [(0, 0, 0), (0, 0, 0)], faces = []\<rparr>),
                 (2::real, \<lparr>points = [(0::real, 0::real, 0::real)], faces = ([]::nat list list)\<rparr>)]"
  have m: "use_colormap (colormap_panel colormap_gui)"
    by (simp add: colormap_gui_fields)
  have o: "fst (colormap_range (colormap_panel colormap_gui))
      \<le> snd (colormap_range (colormap_panel colormap_gui))"
    by (simp add: colormap_range_def colormap_gui_fields new_gui_panels)
  have k1: "1 \<in> fst ` set (label_colors (label_list colormap_gui))"
    and k2: "2 \<in> fst ` set (label_colors (label_list colormap_gui))"
    by (simp_all add: colormap_gui_fields loaded_gui_label_list)
  have v1: "map_of (label_values (colormap_panel colormap_gui)) 1 = Some 0.2"
    and v2: "map_of (label_values (colormap_panel colormap_gui)) 2 = None"
    by (simp_all add: colormap_gui_fields)
  have o2: "map_of (label_colors (label_list colormap_gui)) 2 = Some ''#E45756''"
    by (simp add: colormap_gui_fields loaded_gui_label_list)
  have keys: "map fst (label_colors (label_list colormap_gui)) = [1, 2]"
    by (simp add: colormap_gui_fields loaded_gui_label_list)
  have hex: "cmap_hex sample_ext (current_colormap (colormap_panel colormap_gui))
      (if fst (colormap_range (colormap_panel colormap_gui)) = snd (colormap_range (colormap_panel colormap_gui))
       then 0
       else (0.2 - fst (colormap_range (colormap_panel colormap_gui)))
            / (snd (colormap_range (colormap_panel colormap_gui))
               - fst (colormap_range (colormap_panel colormap_gui)))) = ''#440154''"
    by (simp add: sample_cmap_hex colormap_range_def colormap_gui_fields new_gui_panels)
  have vol: "volume colormap_gui = Some sample_volume"
    and sp: "spacing colormap_gui = Some [1, 1, 1]"
    and org: "origin colormap_gui = Some (0, 0, 0)"
    by (simp_all add: colormap_gui_more)
  have chk: "get_checked_labels (label_list colormap_gui) = [1, 2]"
    by (rule colormap_gui_checked)
  have ne: "get_checked_labels (label_list colormap_gui) \<noteq> []"
    by (simp add: chk)
  have ex: "extract_label_meshes (geometry sample_ext) sample_volume
      (get_checked_labels (label_list colormap_gui)) [1, 1, 1] (0, 0, 0)
      (sigma_spin (render_params colormap_gui)) (smooth_spin (render_params colormap_gui)) 0.1 0.5 =
      ?scene"
    by (simp add: chk colormap_gui_more new_gui_panels sample_cmap_hex sample_extraction)
  have sne: "?scene \<noteq> []" by simp
  note T1 = colormap_mode_colors [OF m o k1 refl, where v = "0.2" and ext = sample_ext
      and vol = sample_volume and sp = "[1, 1, 1]" and org = "(0, 0, 0)" and scene = ?scene]
  note T2 = colormap_mode_colors [OF m o k2 refl, where ext = sample_ext]
  from T1 have a0: "update_colors_from_colormap sample_ext colormap_gui = Done ?g'"
    by blast
  from T1 keys have a: "map fst (label_colors (label_list ?g')) = [1, 2]"
    by simp
  from T1 v1 hex have b: "map_of (label_colors (label_list ?g')) 1 = Some ''#440154''"
    by simp
  from T2 v2 o2 have c: "map_of (label_colors (label_list ?g')) 2 = Some ''#E45756''"
    by simp
  from T1 vol sp org ne ex sne
  have "map (\<lambda>a. (actor_mesh a, color a)) (actors (plotter (render_scene sample_ext ?g'))) =
      map (\<lambda>(i, l, m). (m, case map_of (label_colors (label_list ?g')) l of
                                    Some c \<Rightarrow> c | None \<Rightarrow> default_color i))
        (enumerate 0 ?scene)"
    by blast
  then have d: "map (\<lambda>a. (actor_mesh a, color a)) (actors (plotter (render_scene sample_ext ?g'))) =
       [(\<lparr>points = [(0, 0, 0), (0, 0, 0)], faces = []\<rparr>, ''#440154''),
        (\<lparr>points = [(0, 0, 0)], faces = []\<rparr>, ''#E45756'')]"
    by (simp add: b c)
  from m o k1 k2 v1 v2 o2 a0 a b c vol chk d show ?thesis by blast
qed

theorem colormap_mode_keeps_palette_counterexample:
  "use_colormap (colormap_panel colormap_gui)
   \<and> map_of (label_values (colormap_panel colormap_gui)) 2 = None
   \<and> map_of (label_colors (label_list (state_of (update_colors_from_colormap sample_ext colormap_gui)))) 2 =
       Some ''#E45756''
   \<and> map color (actors (plotter (render_scene sample_ext
         (state_of (update_colors_from_colormap sample_ext colormap_gui))))) = [''#440154'', ''#E45756'']
   \<and> ''#E45756'' \<noteq> NEUTRAL_COLOR
   \<and> ''#E45756'' = PALETTE ! 1"
proof -
  have m: "use_colormap (colormap_panel colormap_gui)"
    and v2: "map_of (label_values (colormap_panel colormap_gui)) 2 = None"
    by (simp_all add: colormap_gui_fields)
  have c: "map_of (label_colors (label_list (state_of (update_colors_from_colormap sample_ext colormap_gui)))) 2 =
       Some ''#E45756''"
    by (simp add: colormap_gui_colors)
  have n: "''#E45756'' \<noteq> NEUTRAL_COLOR" and p: "''#E45756'' = PALETTE ! 1"
    by (simp_all add: NEUTRAL_COLOR_def PALETTE_def)
  from m v2 c colormap_gui_rendered n p show ?thesis by blast
qed

text \<open>
  With the minimum of the range above its maximum, the colour of a known value cannot be
  computed: in colormap mode, with a listed label that has a value, the update raises.
\<close>

lemma update_colors_inverted_raises:
  assumes "use_colormap (colormap_panel g)"
    and "snd (colormap_range (colormap_panel g)) < fst (colormap_range (colormap_panel g))"
    and "lbl \<in> fst ` set (label_colors (label_list g))"
    and "map_of (label_values (colormap_panel g)) lbl = Some v"
  shows "update_colors_from_colormap ext g = Raised g"
proof -
  have gc: "get_color_for_value ext (colormap_panel g) w = Inl ValueError" for w
    using assms(2)
    by (auto simp: get_color_for_value_def normalize_def colormap_range_def Let_def
        split: option.splits)
  have "lbl \<in> set labels \<Longrightarrow> \<exists>exc. compute_colors_loop ext (colormap_panel g) labels colors = Inl exc"
    for labels colors
    using assms(4) gc by (induction labels arbitrary: colors) (auto split: option.splits)
  from this [of "map fst (label_colors (label_list g))" "[]"] assms(3)
  obtain exc where "compute_colors ext (colormap_panel g) (map fst (label_colors (label_list g))) = Inl exc"
    unfolding compute_colors_def by auto
  then show ?thesis
    using assms(1) by (simp add: update_colors_from_colormap_def Let_def)
qed

end
